theory Spec2Isabelle
  imports Main "HOL-Library.Word"
begin

section \<open>Common data\<close>

text \<open>
  Go strings are byte sequences; they are modelled as \<open>string\<close> (a list of 8-bit
  characters), so \<open>length\<close> is Go's \<open>len\<close> and \<open>take n\<close> is the slice \<open>s[:n]\<close>
  for \<open>n \<le> len(s)\<close>. A Go \<open>error\<close> value carries its message.
\<close>

datatype error = Err string

section \<open>lib/journald/reader.go\<close>

subsection \<open>sanitizeStreamName\<close>

text \<open>
  \<open>strings.Replace(s, old, new, -1)\<close> where \<open>old\<close> and \<open>new\<close> are one byte long,
  which is how the source calls it: every occurrence of the byte is substituted.
\<close>

definition strings_Replace :: "string \<Rightarrow> char \<Rightarrow> char \<Rightarrow> string" where
  "strings_Replace s old new = map (\<lambda>c. if c = old then new else c) s"

definition sanitizeStreamName :: "string \<Rightarrow> string" where
  "sanitizeStreamName name0 =
     (let name1 = strings_Replace name0 (CHR '':'') (CHR ''/'');
          name2 = strings_Replace name1 (CHR ''*'') (CHR ''/'');
          max0 = length name2;
          max1 = (if max0 > 512 then 512 else max0)
      in take max1 name2)"

text \<open>A byte is ASCII-printable when it lies in the range 0x20 .. 0x7E.\<close>

definition printable_byte :: "char \<Rightarrow> bool" where
  "printable_byte c = (32 \<le> (of_char c :: nat) \<and> (of_char c :: nat) \<le> 126)"

definition ascii_printable :: "string \<Rightarrow> bool" where
  "ascii_printable s = list_all printable_byte s"

section \<open>Messages (lib.Message and the event of ecs-logs-go)\<close>

text \<open>
  The message types are declared outside the files at hand; their fields are taken from
  the way the sources use them. Go's \<open>int\<close> is 64 bits wide on the platforms the
  program is built for; \<open>sint\<close> reads such a word as the signed number it stands for.
  \<open>ecslogs.Level\<close> is an \<open>int\<close> whose zero value is \<open>NONE\<close>. A \<open>time.Time\<close> is kept
  as a number of nanoseconds, the zero time being 0.
\<close>

text \<open>
  \<open>LogHandler\<close> (the log-call adapter) has fields named like those of a message; it is
  declared first, so that the plain names \<open>Group\<close> and \<open>Stream\<close> are the message's and
  the handler's are written \<open>LogHandler.Group\<close> and \<open>LogHandler.Stream\<close>. Its fourth
  field, the pointer to the shared queue, is the queue that \<open>HandleLog\<close> takes and returns.
\<close>

record LogHandler =
  Group :: string
  Stream :: string
  Hostname :: string

type_synonym go_int = "64 word"

type_synonym go_time = int

record EventInfo =
  Host :: string
  Source :: string
  ID :: string
  PID :: go_int
  UID :: go_int
  GID :: go_int

record Event =
  Level :: go_int
  Time :: go_time
  Info :: EventInfo
  Message :: string
  IsMessageJson :: bool
  WasMessagequoted :: bool

record Message =
  Group :: string
  Stream :: string
  Event :: Event

definition NONE :: go_int where
  "NONE = 0"

section \<open>lib/syslog/writer.go\<close>

subsection \<open>Library functions the writer calls\<close>

text \<open>\<open>strconv.Itoa\<close>: the decimal digits of a signed integer, with a leading minus.\<close>

definition digit :: "nat \<Rightarrow> char" where
  "digit d = ''0123456789'' ! d"

fun decimal :: "nat \<Rightarrow> string" where
  "decimal n = (if n < 10 then [digit n] else decimal (n div 10) @ [digit (n mod 10)])"

definition strconv_Itoa :: "go_int \<Rightarrow> string" where
  "strconv_Itoa i =
     (if sint i < 0 then CHR ''-'' # decimal (nat (- sint i)) else decimal (nat (sint i)))"

text \<open>\<open>strings.HasSuffix\<close> and \<open>strings.HasPrefix\<close>.\<close>

definition strings_HasSuffix :: "string \<Rightarrow> string \<Rightarrow> bool" where
  "strings_HasSuffix s suffix =
     (length s \<ge> length suffix \<and> drop (length s - length suffix) s = suffix)"

definition strings_HasPrefix :: "string \<Rightarrow> string \<Rightarrow> bool" where
  "strings_HasPrefix s prefix0 =
     (length s \<ge> length prefix0 \<and> take (length prefix0) s = prefix0)"

subsection \<open>The wire message and the template\<close>

record message =
  PRIVAL :: go_int
  HOSTNAME :: string
  PROCID :: string
  MSGID :: string
  GROUP :: string
  STREAM :: string
  TAG :: string
  MSG :: string
  TIMESTAMP :: string

definition DefaultTemplate :: string where
  "DefaultTemplate = ''<{{.PRIVAL}}>{{.TIMESTAMP}} {{.GROUP}}[{{.STREAM}}]: {{.MSG}}''"

definition time_Stamp :: string where
  "time_Stamp = ''Jan _2 15:04:05''"

text \<open>
  The functions of other packages that the writer calls and whose results the sources
  do not determine: whether \<open>text/template\<close> parses a format, what executing a parsed
  template on a message writes (the pieces it hands to its destination, in order, and
  the error it ends with, if any), \<open>time.Time.Format\<close>, the event's \<open>String\<close> method,
  \<open>os.Getenv\<close> and \<open>url.Parse\<close> (scheme and host of the URL).
\<close>

record extern =
  tpl_parses :: "string \<Rightarrow> bool"
  tpl_execute :: "string \<Rightarrow> message \<Rightarrow> string list \<times> error option"
  time_Format :: "go_time \<Rightarrow> string \<Rightarrow> string"
  event_String :: "Event \<Rightarrow> string"
  os_Getenv :: "string \<Rightarrow> string"
  url_Parse :: "string \<Rightarrow> error + (string \<times> string)"

text \<open>
  \<open>newWriterTemplate\<close>: the format gets a newline appended unless it ends with one;
  \<open>template.Must\<close> panics when the format does not parse (\<open>None\<close>). A parsed
  template is represented by the text it was parsed from.
\<close>

definition newWriterTemplate_format :: "string \<Rightarrow> string" where
  "newWriterTemplate_format format0 =
     (if \<not> strings_HasSuffix format0 [CHR 0x0A] then format0 @ [CHR 0x0A] else format0)"

definition newWriterTemplate :: "extern \<Rightarrow> string \<Rightarrow> string option" where
  "newWriterTemplate x format0 =
     (let format1 = newWriterTemplate_format format0
      in if tpl_parses x format1 then Some format1 else None)"

subsection \<open>The backend\<close>

text \<open>
  The backend is an \<open>io.WriteCloser\<close>, a connection or a \<open>bufferedConn\<close>; only the
  latter has a \<open>Flush\<close> method. What the transport answers is outside the program:
  the model records every call made on the backend, in order, and takes the answer
  from a function of the calls made before and the call at hand, which covers any
  deterministic schedule of failures.
\<close>

datatype io_op = OpWrite string | OpFlush | OpClose

record backend =
  ops :: "io_op list"
  respond :: "io_op list \<Rightarrow> io_op \<Rightarrow> error option"
  hasFlush :: bool

definition backend_call :: "backend \<Rightarrow> io_op \<Rightarrow> error option \<times> backend" where
  "backend_call b c = (respond b (ops b) c, b\<lparr>ops := ops b @ [c]\<rparr>)"

subsection \<open>The writer\<close>

datatype out_fn = directWrite_fn | bufferedWrite_fn

datatype flush_fn = backend_Flush | no_Flush

record writerConfig =
  backend :: backend
  template :: string
  timeFormat :: string
  tag :: string

record writer = writerConfig +
  buf :: string
  tpl :: string
  out :: out_fn
  flush :: flush_fn
  dead :: bool

definition newWriter :: "extern \<Rightarrow> writerConfig \<Rightarrow> writer option" where
  "newWriter x config0 =
     (let config1 = (if length (timeFormat config0) = 0
                     then config0\<lparr>timeFormat := time_Stamp\<rparr> else config0);
          config2 = (if length (template config1) = 0
                     then config1\<lparr>template := DefaultTemplate\<rparr> else config1);
          (out0, flush0) = (if hasFlush (backend config2)
                            then (directWrite_fn, backend_Flush)
                            else (bufferedWrite_fn, no_Flush))
      in case newWriterTemplate x (template config2) of
           None \<Rightarrow> None
         | Some t \<Rightarrow>
             Some (writerConfig.extend config2
                     \<lparr>buf = [], tpl = t, out = out0, flush = flush0, dead = False\<rparr>))"

text \<open>
  \<open>directWrite\<close> executes the template straight into the backend: every piece is one
  \<open>Write\<close>, the first failing \<open>Write\<close> ends the execution with its error, and an
  error of the execution itself comes after the pieces written before it.
\<close>

fun write_pieces :: "backend \<Rightarrow> string list \<Rightarrow> error option \<times> backend" where
  "write_pieces b [] = (None, b)"
| "write_pieces b (p # ps) =
     (case backend_call b (OpWrite p) of
        (Some err, b') \<Rightarrow> (Some err, b')
      | (None, b') \<Rightarrow> write_pieces b' ps)"

definition directWrite :: "extern \<Rightarrow> writer \<Rightarrow> message \<Rightarrow> error option \<times> writer" where
  "directWrite x w m =
     (let (pieces, terr) = tpl_execute x (tpl w) m;
          (werr, b') = write_pieces (backend w) pieces
      in ((case werr of Some err \<Rightarrow> Some err | None \<Rightarrow> terr), w\<lparr>backend := b'\<rparr>))"

text \<open>
  \<open>bufferedWrite\<close> resets the writer's buffer, executes the template into it (the
  error of the execution is dropped) and hands the buffer to the backend in one \<open>Write\<close>.
\<close>

definition bufferedWrite :: "extern \<Rightarrow> writer \<Rightarrow> message \<Rightarrow> error option \<times> writer" where
  "bufferedWrite x w m =
     (let w1 = w\<lparr>buf := []\<rparr>;
          (pieces, terr) = tpl_execute x (tpl w1) m;
          w2 = w1\<lparr>buf := concat pieces\<rparr>;
          (err, b') = backend_call (backend w2) (OpWrite (buf w2))
      in (err, w2\<lparr>backend := b'\<rparr>))"

text \<open>The message that \<open>writer.write\<close> builds before it calls \<open>w.out\<close>.\<close>

definition write_message :: "extern \<Rightarrow> writer \<Rightarrow> Message \<Rightarrow> message" where
  "write_message x w msg =
     (let m = \<lparr>PRIVAL = (Level (Event msg) - 1) + 8,
               HOSTNAME = Host (Info (Event msg)),
               PROCID = [],
               MSGID = ID (Info (Event msg)),
               GROUP = Group msg,
               STREAM = Stream msg,
               TAG = tag w,
               MSG = [],
               TIMESTAMP = time_Format x (Time (Event msg)) (timeFormat w)\<rparr>;
          m1 = (if length (HOSTNAME m) = 0 then m\<lparr>HOSTNAME := ''-''\<rparr> else m);
          m2 = (if length (MSGID m1) = 0 then m1\<lparr>MSGID := ''-''\<rparr> else m1);
          m3 = (if PID (Info (Event msg)) = 0 then m2\<lparr>PROCID := ''-''\<rparr>
                else m2\<lparr>PROCID := strconv_Itoa (PID (Info (Event msg)))\<rparr>)
      in m3\<lparr>MSG := event_String x (Event msg)\<rparr>)"

definition writer_write :: "extern \<Rightarrow> writer \<Rightarrow> Message \<Rightarrow> error option \<times> writer" where
  "writer_write x w msg =
     (case out w of
        directWrite_fn \<Rightarrow> directWrite x w (write_message x w msg)
      | bufferedWrite_fn \<Rightarrow> bufferedWrite x w (write_message x w msg))"

definition writer_flush :: "writer \<Rightarrow> error option \<times> writer" where
  "writer_flush w =
     (case flush w of
        backend_Flush \<Rightarrow>
          (let (err, b') = backend_call (backend w) OpFlush in (err, w\<lparr>backend := b'\<rparr>))
      | no_Flush \<Rightarrow> (None, w))"

text \<open>The \<open>range\<close> loop of \<open>WriteMessageBatch\<close>, which returns from inside the loop.\<close>

fun WriteMessageBatch_loop ::
  "extern \<Rightarrow> writer \<Rightarrow> Message list \<Rightarrow> error option \<times> writer" where
  "WriteMessageBatch_loop x w [] = (None, w)"
| "WriteMessageBatch_loop x w (msg # batch) =
     (case writer_write x w msg of
        (Some err, w') \<Rightarrow> (Some err, w'\<lparr>dead := True\<rparr>)
      | (None, w') \<Rightarrow> WriteMessageBatch_loop x w' batch)"

definition WriteMessageBatch ::
  "extern \<Rightarrow> writer \<Rightarrow> Message list \<Rightarrow> error option \<times> writer" where
  "WriteMessageBatch x w batch =
     (case WriteMessageBatch_loop x w batch of
        (Some err, w') \<Rightarrow> (Some err, w')
      | (None, w') \<Rightarrow>
          (case writer_flush w' of
             (Some err, w'') \<Rightarrow> (Some err, w''\<lparr>dead := True\<rparr>)
           | (None, w'') \<Rightarrow> (None, w'')))"

definition WriteMessage :: "extern \<Rightarrow> writer \<Rightarrow> Message \<Rightarrow> error option \<times> writer" where
  "WriteMessage x w msg =
     (case writer_write x w msg of
        (Some err, w') \<Rightarrow> (Some err, w'\<lparr>dead := True\<rparr>)
      | (None, w') \<Rightarrow>
          (case writer_flush w' of
             (Some err, w'') \<Rightarrow> (Some err, w''\<lparr>dead := True\<rparr>)
           | (None, w'') \<Rightarrow> (None, w'')))"

subsection \<open>The writer pool and Close\<close>

text \<open>
  The package-level variables: the pool is a buffered channel of capacity 100, read
  and written only by non-blocking \<open>select\<close>s, so it is a queue that takes a writer
  when it holds fewer than 100 and gives its oldest one when it is not empty.
\<close>

record globals =
  writerPool :: "writer list"
  enablePooling :: bool
  newConnections :: "64 word"

definition writerPool_cap :: nat where
  "writerPool_cap = 100"

definition backend_Close :: "writer \<Rightarrow> error option \<times> writer" where
  "backend_Close w =
     (let (err, b') = backend_call (backend w) OpClose in (err, w\<lparr>backend := b'\<rparr>))"

definition Close :: "globals \<Rightarrow> writer \<Rightarrow> error option \<times> writer \<times> globals" where
  "Close g w =
     (if dead w then (let (err, w') = backend_Close w in (err, w', g))
      else if enablePooling g \<and> length (writerPool g) < writerPool_cap
      then (None, w, g\<lparr>writerPool := writerPool g @ [w]\<rparr>)
      else (let (err, w') = backend_Close w in (err, w', g)))"

subsection \<open>Dialing\<close>

text \<open>
  The network is outside the program as well. The model records the calls made on it
  (dials, TLS handshakes over a proxied connection, and the pauses of \<open>time.Sleep\<close>, in
  seconds) and takes each answer, an error or a connection, from a function of the
  calls made before and the call at hand. \<open>proxy.SOCKS5\<close> only builds a dialer; whether
  it fails is a function of its arguments.
\<close>

datatype tls_Config = tls_Config string

datatype net_call =
    NetDial string string
  | TlsDial string string
  | SocksDial string string string
  | TlsHandshake
  | Sleep nat

record net =
  calls :: "net_call list"
  answer :: "net_call list \<Rightarrow> net_call \<Rightarrow> error + backend"
  proxy_SOCKS5 :: "string \<Rightarrow> string \<Rightarrow> error option"

definition net_do :: "net \<Rightarrow> net_call \<Rightarrow> (error + backend) \<times> net" where
  "net_do s c = (answer s (calls s) c, s\<lparr>calls := calls s @ [c]\<rparr>)"

definition time_Sleep :: "nat \<Rightarrow> net \<Rightarrow> net" where
  "time_Sleep secs s = s\<lparr>calls := calls s @ [Sleep secs]\<rparr>"

text \<open>
  The value of the variable \<open>dial\<close> in \<open>dialWriter\<close>: \<open>net.Dial\<close>, the closure over
  \<open>tls.Dial\<close>, or the closure over the SOCKS dialer, which dials through the proxy and,
  when a TLS configuration was given, performs the handshake over that connection.
\<close>

datatype dial_fn =
    net_Dial
  | tls_Dial "tls_Config option"
  | socks_Dial string "tls_Config option"

definition call_dial :: "dial_fn \<Rightarrow> string \<Rightarrow> string \<Rightarrow> net \<Rightarrow> (error + backend) \<times> net" where
  "call_dial d network0 address0 s =
     (case d of
        net_Dial \<Rightarrow> net_do s (NetDial network0 address0)
      | tls_Dial config0 \<Rightarrow> net_do s (TlsDial network0 address0)
      | socks_Dial proxy0 config0 \<Rightarrow>
          (case config0 of
             None \<Rightarrow> net_do s (SocksDial proxy0 network0 address0)
           | Some c \<Rightarrow>
               (case net_do s (SocksDial proxy0 network0 address0) of
                  (Inl err, s') \<Rightarrow> (Inl err, s')
                | (Inr rawConn, s') \<Rightarrow> net_do s' TlsHandshake)))"

text \<open>
  The loop \<open>for attempt := 1; true; attempt++\<close>. The counter is a Go \<open>int\<close>; the loop
  leaves at the first success and at \<open>attempt == 3\<close>, and sleeps one second otherwise.
\<close>

lemma dial_attempts_measure:
  fixes attempt :: go_int
  assumes ne: "attempt \<noteq> 3"
  shows "unat (3 - (attempt + 1)) < unat (3 - attempt)"
proof -
  have nz: "3 - attempt \<noteq> 0"
    using ne by simp
  have eq: "3 - (attempt + 1) = (3 - attempt) - 1"
    by simp
  have "unat ((3 - attempt) - 1) = unat (3 - attempt) - 1"
    using nz by (rule unat_minus_one)
  moreover have "unat (3 - attempt) \<noteq> 0"
    using nz unat_eq_zero by blast
  ultimately have "unat ((3 - attempt) - 1) < unat (3 - attempt)"
    by linarith
  then show ?thesis
    by (simp only: eq)
qed

function dial_attempts ::
  "dial_fn \<Rightarrow> string \<Rightarrow> string \<Rightarrow> go_int \<Rightarrow> net \<Rightarrow> (error + backend) \<times> net" where
  "dial_attempts d network0 address0 attempt s =
     (case call_dial d network0 address0 s of
        (Inr conn, s') \<Rightarrow> (Inr conn, s')
      | (Inl err, s') \<Rightarrow>
          (if attempt = 3 then (Inl err, s')
           else dial_attempts d network0 address0 (attempt + 1) (time_Sleep 1 s')))"
  by pat_completeness auto
termination
proof (relation "measure (\<lambda>(d, network0, address0, attempt, s). unat (3 - attempt))")
  show "wf (measure (\<lambda>(d, network0, address0, attempt, s). unat (3 - attempt)))"
    by simp
next
  fix d :: dial_fn and network0 address0 :: string and attempt :: go_int and s s' :: net
  assume ne: "attempt \<noteq> 3"
  show "((d, network0, address0, attempt + 1, time_Sleep 1 s'),
              (d, network0, address0, attempt, s))
             \<in> measure (\<lambda>(d, network0, address0, attempt, s). unat (3 - attempt))"
    by (simp only: in_measure prod.case dial_attempts_measure [OF ne])
qed

definition datagram_networks :: "string list" where
  "datagram_networks = [''udp'', ''udp4'', ''udp6'', ''unixgram'', ''unixpacket'']"

definition dialWriter_dial :: "string \<Rightarrow> tls_Config option \<Rightarrow> string \<times> dial_fn" where
  "dialWriter_dial network0 config0 =
     (if network0 = ''tls'' then (''tcp'', tls_Dial config0) else (network0, net_Dial))"

definition dialWriter ::
  "string \<Rightarrow> string \<Rightarrow> tls_Config option \<Rightarrow> string \<Rightarrow> net \<Rightarrow> (error + backend) \<times> net" where
  "dialWriter network0 address0 config0 socksProxy s =
     (let (network1, dial0) = dialWriter_dial network0 config0;
          r = (if socksProxy \<noteq> []
               then (case proxy_SOCKS5 s network1 socksProxy of
                       Some err \<Rightarrow> Inl err
                     | None \<Rightarrow> Inr (socks_Dial socksProxy config0))
               else Inr dial0)
      in case r of
           Inl err \<Rightarrow> (Inl err, s)
         | Inr dial1 \<Rightarrow>
             (case dial_attempts dial1 network1 address0 1 s of
                (Inl err, s') \<Rightarrow> (Inl err, s')
              | (Inr conn, s') \<Rightarrow>
                  (if network1 \<in> set datagram_networks
                   then (Inr (conn\<lparr>hasFlush := False\<rparr>), s')
                   else (Inr (conn\<lparr>hasFlush := True\<rparr>), s'))))"

record WriterConfig =
  Network :: string
  Address :: string
  Template :: string
  TimeFormat :: string
  Tag :: string
  TLS :: "tls_Config option"
  SocksProxy :: string

text \<open>
  The first part of \<open>DialWriter\<close>: the candidate networks and addresses, and the
  configuration as the function has changed it by then.
\<close>

definition DialWriter_options :: "WriterConfig \<Rightarrow> string list \<times> string list \<times> WriterConfig" where
  "DialWriter_options config0 =
     (let (netopts, config1) =
            (if length (Network config0) \<noteq> 0 then ([Network config0], config0)
             else if length (Address config0) = 0 \<or> strings_HasPrefix (Address config0) ''/''
             then ([''unixgram'', ''unix''], config0\<lparr>Network := ''unix''\<rparr>)
             else ([''tls''], config0));
          addropts =
            (if length (Address config1) \<noteq> 0 then [Address config1]
             else if strings_HasPrefix (Network config1) ''unix''
             then [''/dev/log'', ''/var/run/syslog'', ''/var/run/log'']
             else [''localhost:514''])
      in (netopts, addropts, config1))"

text \<open>
  The nested loops under the label \<open>connect\<close>. The variables \<open>backend\<close> and \<open>err\<close>
  are assigned by every call of \<open>dialWriter\<close>: \<open>None\<close> stands for both still nil. The
  inner loop tells whether it left through \<open>break connect\<close>.
\<close>

fun connect_addrs ::
  "tls_Config option \<Rightarrow> string \<Rightarrow> string \<Rightarrow> string list \<Rightarrow> (error + backend) option \<Rightarrow> net
   \<Rightarrow> bool \<times> (error + backend) option \<times> net" where
  "connect_addrs tls0 proxy0 n [] r s = (False, r, s)"
| "connect_addrs tls0 proxy0 n (a # addrs) r s =
     (case dialWriter n a tls0 proxy0 s of
        (Inr b, s') \<Rightarrow> (True, Some (Inr b), s')
      | (Inl err, s') \<Rightarrow> connect_addrs tls0 proxy0 n addrs (Some (Inl err)) s')"

fun connect_nets ::
  "tls_Config option \<Rightarrow> string \<Rightarrow> string list \<Rightarrow> string list \<Rightarrow> (error + backend) option \<Rightarrow> net
   \<Rightarrow> (error + backend) option \<times> net" where
  "connect_nets tls0 proxy0 [] addropts r s = (r, s)"
| "connect_nets tls0 proxy0 (n # nets) addropts r s =
     (case connect_addrs tls0 proxy0 n addropts r s of
        (True, r', s') \<Rightarrow> (r', s')
      | (False, r', s') \<Rightarrow> connect_nets tls0 proxy0 nets addropts r' s')"

text \<open>
  What \<open>DialWriter\<close> and \<open>NewWriter\<close> return: a writer, an error, or the panic of
  \<open>template.Must\<close>. With no candidate at all the loops would leave both variables nil
  and \<open>newWriter\<close> would get a nil backend; both lists always hold a candidate.
\<close>

datatype dial_result = Dialed writer | DialError error | TemplatePanic | NilBackend

definition DialWriter :: "extern \<Rightarrow> WriterConfig \<Rightarrow> net \<Rightarrow> dial_result \<times> net" where
  "DialWriter x config0 s =
     (let (netopts, addropts, config1) = DialWriter_options config0
      in case connect_nets (TLS config1) (SocksProxy config1) netopts addropts None s of
           (Some (Inl err), s') \<Rightarrow> (DialError err, s')
         | (None, s') \<Rightarrow> (NilBackend, s')
         | (Some (Inr b), s') \<Rightarrow>
             (case newWriter x \<lparr>backend = b, template = Template config1,
                                timeFormat = TimeFormat config1, tag = Tag config1\<rparr> of
                None \<Rightarrow> (TemplatePanic, s')
              | Some w \<Rightarrow> (Dialed w, s')))"

definition NewWriter_dial :: "extern \<Rightarrow> globals \<Rightarrow> net \<Rightarrow> dial_result \<times> globals \<times> net" where
  "NewWriter_dial x g s =
     (let g1 = g\<lparr>newConnections := newConnections g + 1\<rparr>;
          c0 = \<lparr>Network = [], Address = [], Template = [], TimeFormat = [], Tag = [],
                TLS = None, SocksProxy = []\<rparr>;
          u = os_Getenv x ''SYSLOG_URL''
      in case (if length u \<noteq> 0
               then (case url_Parse x u of
                       Inl (Err m) \<Rightarrow> Inl (Err (''invalid syslog URL: '' @ m))
                     | Inr (scheme, host) \<Rightarrow> Inr (c0\<lparr>Network := scheme, Address := host\<rparr>))
               else Inr c0) of
           Inl err \<Rightarrow> (DialError err, g1, s)
         | Inr c1 \<Rightarrow>
             (let c2 = c1\<lparr>Template := os_Getenv x ''SYSLOG_TEMPLATE''\<rparr>;
                  c3 = c2\<lparr>TimeFormat := os_Getenv x ''SYSLOG_TIME_FORMAT''\<rparr>;
                  (res, s') = DialWriter x c3 s
              in (res, g1, s')))"

definition NewWriter :: "extern \<Rightarrow> globals \<Rightarrow> net \<Rightarrow> dial_result \<times> globals \<times> net" where
  "NewWriter x g s =
     (if enablePooling g
      then (case writerPool g of
              w # rest \<Rightarrow> (Dialed w, g\<lparr>writerPool := rest\<rparr>, s)
            | [] \<Rightarrow> NewWriter_dial x g s)
      else NewWriter_dial x g s)"

section \<open>lib/journald/reader.go: reading a journal entry\<close>

text \<open>
  The journal handle of \<open>sdjournal\<close> at its current entry: the fields of the entry,
  the error \<open>GetDataValue\<close> gives for a field that is not there (with the empty string
  as the value), and the answer of \<open>GetRealtimeUsec\<close>.
\<close>

record journal =
  entry_data :: "string \<rightharpoonup> string"
  field_error :: "string \<Rightarrow> error"
  realtime_usec :: "error + 64 word"

record reader =
  streamName :: string
  stopped :: "32 word"
  Journal :: journal

definition GetDataValue :: "reader \<Rightarrow> string \<Rightarrow> string \<times> error option" where
  "GetDataValue r k =
     (case entry_data (Journal r) k of
        None \<Rightarrow> ([], Some (field_error (Journal r) k))
      | Some v \<Rightarrow> (v, None))"

text \<open>
  The functions of other packages that the reader calls: \<open>json.Unmarshal\<close> into a raw
  message (the bytes, or an error), \<open>strconv.Unquote\<close>, \<open>json.Marshal\<close> of a string,
  \<open>strconv.Atoi\<close> (value and error), \<open>ecslogs.MakeLevel\<close>, the level \<open>ecslogs.INFO\<close>,
  the \<open>String\<close> method of \<open>ecslogs.FuncInfo\<close>, \<open>time.Unix\<close> and \<open>time.Now\<close>.
\<close>

record jextern =
  json_Unmarshal :: "string \<Rightarrow> error + string"
  strconv_Unquote :: "string \<Rightarrow> error + string"
  json_Marshal :: "string \<Rightarrow> string"
  strconv_Atoi :: "string \<Rightarrow> go_int \<times> error option"
  MakeLevel :: "go_int \<Rightarrow> go_int"
  INFO :: go_int
  FuncInfo_String :: "string \<Rightarrow> string \<Rightarrow> go_int \<Rightarrow> string"
  time_Unix :: "64 word \<Rightarrow> 64 word \<Rightarrow> go_time"
  time_Now :: go_time

definition getString :: "reader \<Rightarrow> string \<Rightarrow> string" where
  "getString r k = fst (GetDataValue r k)"

definition getInt :: "jextern \<Rightarrow> reader \<Rightarrow> string \<Rightarrow> go_int" where
  "getInt x r k = fst (strconv_Atoi x (getString r k))"

definition getTime :: "jextern \<Rightarrow> reader \<Rightarrow> go_time" where
  "getTime x r =
     (case realtime_usec (Journal r) of
        Inr u \<Rightarrow> time_Unix x (u div 1000000) ((u mod 1000000) * 1000)
      | Inl e \<Rightarrow> time_Now x)"

definition getPriority :: "jextern \<Rightarrow> reader \<Rightarrow> go_int" where
  "getPriority x r =
     (case strconv_Atoi x (getString r ''PRIORITY'') of
        (v, Some e) \<Rightarrow> INFO x
      | (v, None) \<Rightarrow> MakeLevel x v)"

definition stringToRawMessage :: "jextern \<Rightarrow> string \<Rightarrow> string \<times> bool" where
  "stringToRawMessage x str =
     (case json_Unmarshal x str of Inl err \<Rightarrow> ([], False) | Inr js \<Rightarrow> (js, True))"

text \<open>The zero value of a message, which the named result \<open>msg\<close> starts as.\<close>

definition zero_Message :: Message where
  "zero_Message =
     \<lparr>Group = [], Stream = [],
      Event = \<lparr>Level = 0, Time = 0,
               Info = \<lparr>Host = [], Source = [], ID = [], PID = 0, UID = 0, GID = 0\<rparr>,
               Message = [], IsMessageJson = False, WasMessagequoted = False\<rparr>\<rparr>"

text \<open>The body of the message: raw JSON, quoted JSON unquoted once, or the text marshalled.\<close>

definition getMessage_body :: "jextern \<Rightarrow> reader \<Rightarrow> Event \<Rightarrow> Event" where
  "getMessage_body x r ev =
     (let s = getString r ''MESSAGE''
      in case stringToRawMessage x s of
           (raw, True) \<Rightarrow>
             (case strconv_Unquote x s of
                Inr unquoted \<Rightarrow>
                  (case stringToRawMessage x unquoted of
                     (raw1, True) \<Rightarrow>
                       ev\<lparr>Message := raw1, IsMessageJson := True, WasMessagequoted := True\<rparr>
                   | (raw1, False) \<Rightarrow>
                       ev\<lparr>Message := raw, IsMessageJson := True, WasMessagequoted := False\<rparr>)
              | Inl err \<Rightarrow>
                  ev\<lparr>Message := raw, IsMessageJson := True, WasMessagequoted := False\<rparr>)
         | (raw, False) \<Rightarrow>
             ev\<lparr>Message := json_Marshal x s, IsMessageJson := False,
                WasMessagequoted := False\<rparr>)"

text \<open>The enrichment: every field still at its zero value is filled from the journal.\<close>

definition getMessage_enrich :: "jextern \<Rightarrow> reader \<Rightarrow> Event \<Rightarrow> Event" where
  "getMessage_enrich x r ev0 =
     (let ev1 = (if Level ev0 = NONE then ev0\<lparr>Level := getPriority x r\<rparr> else ev0);
          i1 = Info ev1;
          i2 = (if length (Host i1) = 0 then i1\<lparr>Host := getString r ''_HOSTNAME''\<rparr> else i1);
          i3 = (if length (Source i2) = 0
                then i2\<lparr>Source := FuncInfo_String x (getString r ''CODE_FILE'')
                                     (getString r ''CODE_FUNC'') (getInt x r ''CODE_LINE'')\<rparr>
                else i2);
          i4 = (if length (ID i3) = 0 then i3\<lparr>ID := getString r ''MESSAGE_ID''\<rparr> else i3);
          i5 = (if PID i4 = 0 then i4\<lparr>PID := getInt x r ''_PID''\<rparr> else i4);
          i6 = (if GID i5 = 0 then i5\<lparr>GID := getInt x r ''_GID''\<rparr> else i5);
          i7 = (if UID i6 = 0 then i6\<lparr>UID := getInt x r ''_UID''\<rparr> else i6);
          ev2 = ev1\<lparr>Info := i7\<rparr>
      in if Time ev2 = 0 then ev2\<lparr>Time := getTime x r\<rparr> else ev2)"

text \<open>\<open>getMessage\<close> from the stream name on, once group and stream are there.\<close>

definition getMessage_rest :: "jextern \<Rightarrow> reader \<Rightarrow> Message \<Rightarrow> Message \<times> bool \<times> error option" where
  "getMessage_rest x r msg0 =
     (let msg1 = msg0\<lparr>Stream := sanitizeStreamName (Stream msg0)\<rparr>;
          msg2 = msg1\<lparr>Event := getMessage_body x r (Event msg1)\<rparr>;
          msg3 = msg2\<lparr>Event := getMessage_enrich x r (Event msg2)\<rparr>
      in (msg3, True, None))"

definition getMessage :: "jextern \<Rightarrow> reader \<Rightarrow> Message \<times> bool \<times> error option" where
  "getMessage x r =
     (let (g, err0) = GetDataValue r ''CONTAINER_TAG'';
          msg1 = zero_Message\<lparr>Group := g\<rparr>
      in if length (Group msg1) = 0 then (msg1, False, None)
         else
           (let (s1, err1) = GetDataValue r (streamName r);
                msg2 = msg1\<lparr>Stream := s1\<rparr>
            in case err1 of
                 None \<Rightarrow> getMessage_rest x r msg2
               | Some e1 \<Rightarrow>
                   (let (s2, err2) = GetDataValue r ''CONTAINER_ID_FULL'';
                        msg3 = msg2\<lparr>Stream := s2\<rparr>
                    in case err2 of
                         None \<Rightarrow> getMessage_rest x r msg3
                       | Some e2 \<Rightarrow>
                           (msg3, False,
                            Some (Err (''missing CONTAINER_ID_FULL in message with CONTAINER_TAG=''
                                       @ Group msg3))))))"

text \<open>
  \<open>ReadMessage\<close> polls the journal until it is stopped. What the journal gives is
  outside the program, so the loop runs over a script: for each iteration, what
  \<open>Next\<close> answers (an error, no new entry, or the entry it moved to) and whether
  \<open>Close\<close> was called from another thread before the next iteration. A script that
  ends while the reader is still polling gives no result (\<open>None\<close>).
\<close>

datatype next_result = NextError error | NextNone | NextEntry journal

definition io_EOF :: error where
  "io_EOF = Err ''EOF''"

definition reader_Close :: "reader \<Rightarrow> reader" where
  "reader_Close r = r\<lparr>stopped := 1\<rparr>"

fun ReadMessage_loop ::
  "jextern \<Rightarrow> reader \<Rightarrow> Message \<Rightarrow> (next_result \<times> bool) list \<Rightarrow> (Message \<times> error option) option" where
  "ReadMessage_loop x r msg [] =
     (if stopped r = 0 then None else Some (msg, Some io_EOF))"
| "ReadMessage_loop x r msg ((n, closed) # script) =
     (if stopped r = 0
      then (let r' = (if closed then reader_Close r else r)
            in case n of
                 NextError err \<Rightarrow> Some (msg, Some err)
               | NextNone \<Rightarrow> ReadMessage_loop x r' msg script
               | NextEntry j \<Rightarrow>
                   (case getMessage x (r\<lparr>Journal := j\<rparr>) of
                      (msg', ok, err) \<Rightarrow>
                        if ok \<or> err \<noteq> None then Some (msg', err)
                        else ReadMessage_loop x (r'\<lparr>Journal := j\<rparr>) msg' script))
      else Some (msg, Some io_EOF))"

definition ReadMessage ::
  "jextern \<Rightarrow> reader \<Rightarrow> (next_result \<times> bool) list \<Rightarrow> (Message \<times> error option) option" where
  "ReadMessage x r script = ReadMessage_loop x r zero_Message script"

section \<open>The log-call adapter (LogHandler.HandleLog)\<close>

text \<open>
  Modelled from the spec: the message queue (\<open>MessageQueue\<close> with \<open>Push\<close> and \<open>Notify\<close>)
  is declared in a file of the repository that is not at hand. The specification says
  that \<open>Push\<close> enqueues one message without blocking and that \<open>Notify\<close> wakes a waiting
  consumer, separately from \<open>Push\<close>; the queue is unbounded and keeps the order of the pushes.
\<close>

record MessageQueue =
  batch :: "Message list"
  notified :: bool

definition Push :: "MessageQueue \<Rightarrow> Message \<Rightarrow> MessageQueue" where
  "Push q msg = q\<lparr>batch := batch q @ [msg]\<rparr>"

definition Notify :: "MessageQueue \<Rightarrow> MessageQueue" where
  "Notify q = q\<lparr>notified := True\<rparr>"

text \<open>
  \<open>HandleLog\<close>. The entry of the logging library is turned into an event by
  \<open>apex_ecslogs.MakeEvent\<close>; \<open>caller\<close> is what \<open>GuessCaller\<close> and \<open>GetFuncInfo\<close> find
  for the source location (\<open>None\<close> when either finds nothing). The two methods of the
  queue are parameters, \<open>push\<close> and \<open>notify\<close>: the handler calls them whatever they do.
\<close>

definition HandleLog ::
  "('entry \<Rightarrow> Event) \<Rightarrow> string option \<Rightarrow> ('q \<Rightarrow> Message \<Rightarrow> 'q) \<Rightarrow> ('q \<Rightarrow> 'q)
   \<Rightarrow> LogHandler \<Rightarrow> 'q \<Rightarrow> 'entry \<Rightarrow> error option \<times> 'q" where
  "HandleLog MakeEvent caller push notify h q entry =
     (let msg0 = \<lparr>Group = LogHandler.Group h, Stream = LogHandler.Stream h,
                  Event = MakeEvent entry\<rparr>;
          msg1 = (if length (Host (Info (Event msg0))) = 0
                  then msg0\<lparr>Event := (Event msg0)\<lparr>Info := (Info (Event msg0))\<lparr>Host := Hostname h\<rparr>\<rparr>\<rparr>
                  else msg0);
          msg2 = (if length (Source (Info (Event msg1))) = 0
                  then (case caller of
                          Some info \<Rightarrow>
                            msg1\<lparr>Event := (Event msg1)\<lparr>Info := (Info (Event msg1))\<lparr>Source := info\<rparr>\<rparr>\<rparr>
                        | None \<Rightarrow> msg1)
                  else msg1)
      in (None, notify (push q msg2)))"

section \<open>What the specification's words describe\<close>


text \<open>A template ends with exactly one newline: with one, and not with two.\<close>

definition one_trailing_newline :: "string \<Rightarrow> bool" where
  "one_trailing_newline t =
     (strings_HasSuffix t [CHR 0x0A] \<and> \<not> strings_HasSuffix t [CHR 0x0A, CHR 0x0A])"

text \<open>Releasing writers one after the other, and acquiring several in a row.\<close>

fun Close_each :: "globals \<Rightarrow> writer list \<Rightarrow> (error option \<times> writer) list \<times> globals" where
  "Close_each g [] = ([], g)"
| "Close_each g (w # ws) =
     (case Close g w of
        (err, w', g') \<Rightarrow> (case Close_each g' ws of (rs, g'') \<Rightarrow> ((err, w') # rs, g'')))"

fun NewWriter_each :: "extern \<Rightarrow> nat \<Rightarrow> globals \<Rightarrow> net \<Rightarrow> dial_result list \<times> globals \<times> net" where
  "NewWriter_each x 0 g s = ([], g, s)"
| "NewWriter_each x (Suc n) g s =
     (case NewWriter x g s of
        (res, g', s') \<Rightarrow>
          (case NewWriter_each x n g' s' of (rs, g'', s'') \<Rightarrow> (res # rs, g'', s'')))"


section \<open>Concrete values for the examples\<close>

definition ex_extern :: extern where
  "ex_extern =
     \<lparr>tpl_parses = (\<lambda>f. True),
      tpl_execute = (\<lambda>t m. ([GROUP m @ ''['' @ STREAM m @ '']: '' @ MSG m], None)),
      time_Format = (\<lambda>t f. []),
      event_String = (\<lambda>e. Message e),
      os_Getenv = (\<lambda>k. []),
      url_Parse = (\<lambda>u. Inr ([], u))\<rparr>"


definition ok_backend :: backend where
  "ok_backend = \<lparr>ops = [], respond = (\<lambda>hist c. None), hasFlush = False\<rparr>"

definition ex_writer :: "backend \<Rightarrow> writer" where
  "ex_writer b =
     \<lparr>backend = b, template = DefaultTemplate, timeFormat = time_Stamp, tag = [],
      buf = [], tpl = DefaultTemplate @ [CHR 0x0A], out = bufferedWrite_fn, flush = no_Flush,
      dead = False\<rparr>"


text \<open>A network on which the first two calls of a dial fail and the third succeeds.\<close>

definition ex_net :: net where
  "ex_net =
     \<lparr>calls = [],
      answer = (\<lambda>hist c. if length hist < 4 then Inl (Err ''connection refused'')
                          else Inr ok_backend),
      proxy_SOCKS5 = (\<lambda>n a. None)\<rparr>"

definition ex_globals :: globals where
  "ex_globals = \<lparr>writerPool = [], enablePooling = True, newConnections = 0\<rparr>"

definition ex_jextern :: jextern where
  "ex_jextern =
     \<lparr>json_Unmarshal = (\<lambda>s. Inl (Err ''invalid character'')),
      strconv_Unquote = (\<lambda>s. Inl (Err ''invalid syntax'')),
      json_Marshal = (\<lambda>s. [CHR 0x22] @ s @ [CHR 0x22]),
      strconv_Atoi = (\<lambda>s. (0, Some (Err ''invalid syntax''))),
      MakeLevel = (\<lambda>v. v + 1),
      INFO = 7,
      FuncInfo_String = (\<lambda>file func line. []),
      time_Unix = (\<lambda>sec nsec. 1),
      time_Now = 1\<rparr>"

definition ex_reader :: "(string \<rightharpoonup> string) \<Rightarrow> reader" where
  "ex_reader d =
     \<lparr>streamName = ''CONTAINER_ID_FULL'', stopped = 0,
      Journal = \<lparr>entry_data = d, field_error = (\<lambda>k. Err ''no such field''),
                 realtime_usec = Inl (Err ''no entry'')\<rparr>\<rparr>"

definition ex_handler :: LogHandler where
  "ex_handler = \<lparr>LogHandler.Group = [], LogHandler.Stream = [], Hostname = ''host''\<rparr>"

definition ex_queue :: MessageQueue where
  "ex_queue = \<lparr>batch = [], notified = False\<rparr>"

definition ex_MakeEvent :: "unit \<Rightarrow> Event" where
  "ex_MakeEvent entry = Event zero_Message"

text \<open>
  A network on which every call succeeds, and a configuration with an address, no
  network, a SOCKS proxy and no TLS configuration.
\<close>

definition ex_ok_net :: net where
  "ex_ok_net =
     \<lparr>calls = [], answer = (\<lambda>hist c. Inr ok_backend), proxy_SOCKS5 = (\<lambda>n a. None)\<rparr>"

definition ex_proxy_config :: WriterConfig where
  "ex_proxy_config =
     \<lparr>Network = [], Address = ''logs.example.com:6514'', Template = [], TimeFormat = [],
      Tag = [], TLS = None, SocksProxy = ''127.0.0.1:1080''\<rparr>"

section \<open>Properties of sanitizeStreamName\<close>

lemma strings_Replace_length: "length (strings_Replace s old new) = length s"
  by (simp add: strings_Replace_def)

lemma sanitizeStreamName_eq:
  "sanitizeStreamName s =
     take 512 (map (\<lambda>c. if c = CHR '':'' \<or> c = CHR ''*'' then CHR ''/'' else c) s)"
proof -
  have m: "map (\<lambda>c. if c = CHR ''*'' then CHR ''/'' else c)
             (map (\<lambda>c. if c = CHR '':'' then CHR ''/'' else c) s)
           = map (\<lambda>c. if c = CHR '':'' \<or> c = CHR ''*'' then CHR ''/'' else c) s"
    by (induction s) auto
  show ?thesis
    unfolding sanitizeStreamName_def Let_def strings_Replace_def m
    by simp
qed

lemma sanitizeStreamName_idem:
  "sanitizeStreamName (sanitizeStreamName s) = sanitizeStreamName s"
proof -
  let ?f = "\<lambda>c. if c = CHR '':'' \<or> c = CHR ''*'' then CHR ''/'' else c"
  have ff: "map ?f (map ?f xs) = map ?f xs" for xs :: string
    by (induction xs) auto
  have "take 512 (map ?f (take 512 (map ?f s))) = take 512 (take 512 (map ?f (map ?f s)))"
    by (simp only: take_map)
  also have "\<dots> = take 512 (map ?f s)"
    by (simp only: ff take_take min.idem)
  finally show ?thesis
    by (simp only: sanitizeStreamName_eq)
qed

lemma sanitizeStreamName_no_delims:
  "CHR '':'' \<notin> set (sanitizeStreamName s) \<and> CHR ''*'' \<notin> set (sanitizeStreamName s)"
proof -
  let ?f = "\<lambda>c. if c = CHR '':'' \<or> c = CHR ''*'' then CHR ''/'' else c"
  have "set (sanitizeStreamName s) \<subseteq> set (map ?f s)"
    unfolding sanitizeStreamName_eq by (rule set_take_subset)
  moreover have "CHR '':'' \<notin> set (map ?f s)" "CHR ''*'' \<notin> set (map ?f s)"
    by auto
  ultimately show ?thesis by blast
qed

lemma sanitizeStreamName_length: "length (sanitizeStreamName s) \<le> 512"
  by (simp add: sanitizeStreamName_eq)

lemma sanitizeStreamName_printable:
  "ascii_printable s \<Longrightarrow> ascii_printable (sanitizeStreamName s)"
proof -
  let ?f = "\<lambda>c. if c = CHR '':'' \<or> c = CHR ''*'' then CHR ''/'' else c"
  assume p: "ascii_printable s"
  have slash: "printable_byte (CHR ''/'')"
    by (simp add: printable_byte_def)
  have "list_all printable_byte (map ?f s)"
    using p slash by (induction s) (auto simp: ascii_printable_def)
  then have "list_all printable_byte (take 512 (map ?f s))"
    unfolding list_all_iff by (blast dest: in_set_takeD)
  then show ?thesis
    by (simp only: ascii_printable_def sanitizeStreamName_eq)
qed

text \<open>
  Claim C4 (as the code has it). For every input, \<open>sanitizeStreamName\<close> is idempotent,
  its output holds neither \<open>:\<close> nor \<open>*\<close>, and its output is at most 512 bytes long.
  The function replaces two bytes and truncates; it filters nothing else, so the
  output is ASCII-printable exactly when the retained input bytes are: in particular it
  is ASCII-printable whenever the input is.
\<close>

theorem sanitizeStreamName_spec:
  "sanitizeStreamName (sanitizeStreamName s) = sanitizeStreamName s
   \<and> CHR '':'' \<notin> set (sanitizeStreamName s)
   \<and> CHR ''*'' \<notin> set (sanitizeStreamName s)
   \<and> length (sanitizeStreamName s) \<le> 512
   \<and> (ascii_printable s \<longrightarrow> ascii_printable (sanitizeStreamName s))"
  using sanitizeStreamName_idem sanitizeStreamName_no_delims sanitizeStreamName_length
    sanitizeStreamName_printable
  by blast

theorem sanitizeStreamName_spec_witness:
  "ascii_printable ''a:b*c''
   \<and> sanitizeStreamName ''a:b*c'' = ''a/b/c''
   \<and> sanitizeStreamName (sanitizeStreamName ''a:b*c'') = sanitizeStreamName ''a:b*c''
   \<and> length (sanitizeStreamName ''a:b*c'') \<le> 512
   \<and> ascii_printable (sanitizeStreamName ''a:b*c'')"
proof -
  have p: "ascii_printable ''a:b*c''"
    by (simp add: ascii_printable_def printable_byte_def)
  have v: "sanitizeStreamName ''a:b*c'' = ''a/b/c''"
    by (simp add: sanitizeStreamName_def strings_Replace_def)
  show ?thesis
    using p v sanitizeStreamName_spec [of "''a:b*c''"] by blast
qed

text \<open>
  The claim as written also promises an ASCII-printable output for every input. A
  control byte passes through unchanged: the one-byte name 0x01 is returned as it is.
\<close>

theorem sanitizeStreamName_not_printable:
  "sanitizeStreamName [CHR 0x01] = [CHR 0x01]
   \<and> \<not> ascii_printable (sanitizeStreamName [CHR 0x01])"
  by (simp add: sanitizeStreamName_def strings_Replace_def ascii_printable_def
      printable_byte_def)

section \<open>Properties of the writer's template\<close>

lemma HasSuffix_append: "strings_HasSuffix (s @ t) t"
  by (simp add: strings_HasSuffix_def)

lemma HasSuffix_iff: "strings_HasSuffix s t = (\<exists>u. s = u @ t)"
proof
  assume "strings_HasSuffix s t"
  then have "s = take (length s - length t) s @ t"
    unfolding strings_HasSuffix_def by (metis append_take_drop_id)
  then show "\<exists>u. s = u @ t" ..
next
  assume "\<exists>u. s = u @ t"
  then show "strings_HasSuffix s t"
    by (auto simp: strings_HasSuffix_def)
qed

lemma newWriterTemplate_format_newline:
  "strings_HasSuffix (newWriterTemplate_format f) [CHR 0x0A]"
  by (simp add: newWriterTemplate_format_def HasSuffix_append)

lemma newWriterTemplate_format_one:
  "\<not> strings_HasSuffix f [CHR 0x0A, CHR 0x0A] \<Longrightarrow>
   \<not> strings_HasSuffix (newWriterTemplate_format f) [CHR 0x0A, CHR 0x0A]"
  unfolding newWriterTemplate_format_def HasSuffix_iff
  by (auto simp: append_eq_append_conv2 Cons_eq_append_conv append_eq_Cons_conv)

text \<open>
  Claim C7 (as the code has it). The format handed to the template parser always ends
  with a newline: a format that ends with one is taken as it is, any other gets one
  newline appended. So the installed template ends with exactly one trailing newline
  unless the caller's format itself ends with two or more. The template is installed
  only when the format parses; otherwise \<open>template.Must\<close> panics.
\<close>

theorem newWriterTemplate_spec:
  "strings_HasSuffix (newWriterTemplate_format f) [CHR 0x0A]
   \<and> newWriterTemplate_format f = (if strings_HasSuffix f [CHR 0x0A] then f else f @ [CHR 0x0A])
   \<and> (\<not> strings_HasSuffix f [CHR 0x0A, CHR 0x0A] \<longrightarrow> one_trailing_newline (newWriterTemplate_format f))
   \<and> newWriterTemplate x f =
       (if tpl_parses x (newWriterTemplate_format f) then Some (newWriterTemplate_format f) else None)"
  using newWriterTemplate_format_newline [of f] newWriterTemplate_format_one [of f]
  by (simp add: one_trailing_newline_def newWriterTemplate_def newWriterTemplate_format_def)

text \<open>The format \<open>abc\<close>, without a newline, is installed as \<open>abc\<close> and one newline.\<close>

theorem newWriterTemplate_spec_witness:
  "\<not> strings_HasSuffix ''abc'' [CHR 0x0A, CHR 0x0A]
   \<and> newWriterTemplate_format ''abc'' = ''abc'' @ [CHR 0x0A]
   \<and> one_trailing_newline (newWriterTemplate_format ''abc'')
   \<and> newWriterTemplate ex_extern ''abc'' = Some (''abc'' @ [CHR 0x0A])"
proof -
  note t = newWriterTemplate_spec [of "''abc''" ex_extern]
  have h: "\<not> strings_HasSuffix ''abc'' [CHR 0x0A, CHR 0x0A]"
    by (simp add: strings_HasSuffix_def)
  have n: "\<not> strings_HasSuffix ''abc'' [CHR 0x0A]"
    by (simp add: strings_HasSuffix_def)
  have p: "tpl_parses ex_extern (newWriterTemplate_format ''abc'')"
    by (simp add: ex_extern_def)
  from t h have a: "one_trailing_newline (newWriterTemplate_format ''abc'')"
    by blast
  from t n have b: "newWriterTemplate_format ''abc'' = ''abc'' @ [CHR 0x0A]"
    by simp
  from t p have "newWriterTemplate ex_extern ''abc'' = Some (newWriterTemplate_format ''abc'')"
    by simp
  then have c: "newWriterTemplate ex_extern ''abc'' = Some (''abc'' @ [CHR 0x0A])"
    by (simp only: b)
  show ?thesis
    by (intro conjI h a b c)
qed

text \<open>
  The claim as written promises exactly one trailing newline for every format. A format
  that ends with two newlines is installed unchanged, with both.
\<close>

theorem newWriterTemplate_two_newlines:
  "newWriterTemplate_format [CHR ''x'', CHR 0x0A, CHR 0x0A] = [CHR ''x'', CHR 0x0A, CHR 0x0A]
   \<and> \<not> one_trailing_newline (newWriterTemplate_format [CHR ''x'', CHR 0x0A, CHR 0x0A])"
  by (simp add: newWriterTemplate_format_def strings_HasSuffix_def one_trailing_newline_def)

lemma newWriter_tpl:
  "newWriter x c = Some w \<Longrightarrow>
   tpl w = newWriterTemplate_format (if template c = [] then DefaultTemplate else template c)"
  by (auto simp: newWriter_def newWriterTemplate_def Let_def writerConfig.defs
      split: if_splits prod.splits option.splits)

section \<open>Wire rendering\<close>

lemma strconv_Itoa_examples:
  "strconv_Itoa 1234 = ''1234'' \<and> strconv_Itoa (- 5) = ''-5'' \<and> strconv_Itoa 0 = ''0''"
  by (simp add: strconv_Itoa_def digit_def)

text \<open>
  Claim C6. For every message, the wire message that \<open>writer.write\<close> hands to the
  template has the priority value \<open>(level - 1) + 8\<close>, computed on Go's \<open>int\<close> (level 3
  gives 10), the hostname or \<open>-\<close> when it is empty, the message id or \<open>-\<close> when it is
  empty, and for the process id \<open>-\<close> when it is zero and its decimal string otherwise.
\<close>

theorem write_message_spec:
  "PRIVAL (write_message x w msg) = (Level (Event msg) - 1) + 8
   \<and> PRIVAL (write_message x w (msg\<lparr>Event := (Event msg)\<lparr>Level := 3\<rparr>\<rparr>)) = 10
   \<and> HOSTNAME (write_message x w msg) =
       (if Host (Info (Event msg)) = [] then ''-'' else Host (Info (Event msg)))
   \<and> MSGID (write_message x w msg) =
       (if ID (Info (Event msg)) = [] then ''-'' else ID (Info (Event msg)))
   \<and> PROCID (write_message x w msg) =
       (if PID (Info (Event msg)) = 0 then ''-'' else strconv_Itoa (PID (Info (Event msg))))"
  by (simp add: write_message_def Let_def)

section \<open>Writing\<close>

text \<open>
  Claim C10. For every message and every writer, \<open>WriteMessage\<close> gives the error and
  the writer (backend calls, buffer, dead flag) that \<open>WriteMessageBatch\<close> gives on the
  batch of that one message.
\<close>

theorem WriteMessage_eq_single_batch:
  "WriteMessage x w msg = WriteMessageBatch x w [msg]"
  by (simp add: WriteMessage_def WriteMessageBatch_def split: prod.splits option.splits)




lemma writer_write_keeps_dead:
  "dead (snd (writer_write x w msg)) = dead w"
  by (simp add: writer_write_def directWrite_def bufferedWrite_def Let_def
      split: out_fn.splits prod.splits)



lemma writer_flush_dead:
  "writer_flush (w\<lparr>dead := d\<rparr>) = (fst (writer_flush w), (snd (writer_flush w))\<lparr>dead := d\<rparr>)"
  by (simp add: writer_flush_def Let_def split: flush_fn.splits prod.splits)


lemma backend_Close_ops:
  "ops (backend (snd (backend_Close w))) = ops (backend w) @ [OpClose]"
  by (simp add: backend_Close_def backend_call_def)

lemma Close_pooled:
  "\<not> dead w \<Longrightarrow> enablePooling g \<Longrightarrow> length (writerPool g) < writerPool_cap \<Longrightarrow>
   Close g w = (None, w, g\<lparr>writerPool := writerPool g @ [w]\<rparr>)"
  by (simp add: Close_def)







section \<open>The pool\<close>

lemma Close_policy:
  "Close g w =
     (if dead w then (fst (backend_Close w), snd (backend_Close w), g)
      else if enablePooling g \<and> length (writerPool g) < writerPool_cap
      then (None, w, g\<lparr>writerPool := writerPool g @ [w]\<rparr>)
      else (fst (backend_Close w), snd (backend_Close w), g))"
  by (simp add: Close_def split: prod.splits)

lemma Close_each_healthy:
  "enablePooling g \<Longrightarrow> list_all (\<lambda>w. \<not> dead w) ws \<Longrightarrow> length (writerPool g) \<le> writerPool_cap \<Longrightarrow>
   writerPool (snd (Close_each g ws)) =
     writerPool g @ take (writerPool_cap - length (writerPool g)) ws
   \<and> map snd (fst (Close_each g ws)) =
       take (writerPool_cap - length (writerPool g)) ws
       @ map (\<lambda>w. snd (backend_Close w)) (drop (writerPool_cap - length (writerPool g)) ws)"
proof (induction ws arbitrary: g)
  case Nil
  show ?case by simp
next
  case (Cons w ws)
  have hw: "\<not> dead w" and hws: "list_all (\<lambda>w. \<not> dead w) ws"
    using Cons.prems(2) by simp_all
  show ?case
  proof (cases "length (writerPool g) < writerPool_cap")
    case True
    let ?g = "g\<lparr>writerPool := writerPool g @ [w]\<rparr>"
    have c: "Close g w = (None, w, ?g)"
      using hw True Cons.prems(1) by (simp add: Close_policy)
    have ih: "writerPool (snd (Close_each ?g ws)) =
                writerPool ?g @ take (writerPool_cap - length (writerPool ?g)) ws
              \<and> map snd (fst (Close_each ?g ws)) =
                take (writerPool_cap - length (writerPool ?g)) ws
                @ map (\<lambda>w. snd (backend_Close w)) (drop (writerPool_cap - length (writerPool ?g)) ws)"
      using Cons.IH [of ?g] Cons.prems(1) hws True by simp
    obtain k where k: "writerPool_cap - length (writerPool g) = Suc k"
      using True by (metis Suc_diff_Suc)
    then have k2: "writerPool_cap - Suc (length (writerPool g)) = k"
      by simp
    obtain rs g2 where ce: "Close_each ?g ws = (rs, g2)"
      by (cases "Close_each ?g ws")
    have r1: "writerPool g2 = writerPool g @ w # take k ws"
      and r2: "map snd rs = take k ws @ map (\<lambda>w. snd (backend_Close w)) (drop k ws)"
      using ih by (simp_all add: ce k2)
    show ?thesis
      by (simp add: c ce k r1 r2)
  next
    case False
    then have z: "writerPool_cap - length (writerPool g) = 0"
      by simp
    have c: "Close g w = (fst (backend_Close w), snd (backend_Close w), g)"
      using hw False by (simp add: Close_policy)
    obtain rs g2 where ce: "Close_each g ws = (rs, g2)"
      by (cases "Close_each g ws")
    have r1: "writerPool g2 = writerPool g"
      and r2: "map snd rs = map (\<lambda>w. snd (backend_Close w)) ws"
      using Cons.IH [of g] Cons.prems(1) Cons.prems(3) hws by (simp_all add: ce z)
    show ?thesis
      by (simp add: c ce z r1 r2)
  qed
qed

lemma Close_each_enablePooling:
  "enablePooling (snd (Close_each g ws)) = enablePooling g"
proof (induction ws arbitrary: g)
  case Nil
  show ?case by simp
next
  case (Cons w ws)
  obtain e w' g' where c: "Close g w = (e, w', g')"
    by (cases "Close g w")
  then have "enablePooling g' = enablePooling g"
    by (auto simp: Close_policy split: if_splits)
  then show ?case
    using Cons.IH [of g'] by (simp add: c case_prod_unfold)
qed

lemma NewWriter_each_pool:
  "enablePooling g \<Longrightarrow> n \<le> length (writerPool g) \<Longrightarrow>
   NewWriter_each x n g s =
     (map Dialed (take n (writerPool g)), g\<lparr>writerPool := drop n (writerPool g)\<rparr>, s)"
proof (induction n arbitrary: g)
  case 0
  show ?case by simp
next
  case (Suc n)
  then obtain w rest where p: "writerPool g = w # rest"
    by (cases "writerPool g") auto
  let ?g = "g\<lparr>writerPool := rest\<rparr>"
  have nw: "NewWriter x g s = (Dialed w, ?g, s)"
    using Suc.prems(1) p by (simp add: NewWriter_def)
  have "NewWriter_each x n ?g s =
          (map Dialed (take n (writerPool ?g)), ?g\<lparr>writerPool := drop n (writerPool ?g)\<rparr>, s)"
    using Suc.IH [of ?g] Suc.prems p by simp
  then show ?case
    by (simp add: nw p)
qed

lemma NewWriter_dial_counts:
  "newConnections (fst (snd (NewWriter_dial x g s))) = newConnections g + 1"
  by (simp add: NewWriter_dial_def Let_def split: sum.splits prod.splits error.splits)

text \<open>
  Claim C5. \<open>Close\<close> on a dead writer closes the transport; on a healthy writer with
  pooling enabled it puts the writer into the pool when the pool holds fewer than 100
  and closes the transport otherwise; with pooling disabled it always closes. Closing
  is one \<open>Close\<close> call on the backend and leaves the pool as it was. So releasing
  healthy writers into an empty pool keeps the first 100 and closes the rest (of 101,
  exactly one), and the next acquisitions hand out the pooled writers, oldest first,
  without dialing; only with an empty pool (or pooling disabled) does \<open>NewWriter\<close>
  dial, counting a new connection.
\<close>

theorem Close_pool_policy:
  "Close g w =
     (if dead w then (fst (backend_Close w), snd (backend_Close w), g)
      else if enablePooling g \<and> length (writerPool g) < writerPool_cap
      then (None, w, g\<lparr>writerPool := writerPool g @ [w]\<rparr>)
      else (fst (backend_Close w), snd (backend_Close w), g))
   \<and> ops (backend (snd (backend_Close w))) = ops (backend w) @ [OpClose]
   \<and> writerPool_cap = 100
   \<and> (enablePooling g \<and> writerPool g = [] \<and> list_all (\<lambda>w. \<not> dead w) ws \<longrightarrow>
        writerPool (snd (Close_each g ws)) = take writerPool_cap ws
        \<and> map snd (fst (Close_each g ws)) =
            take writerPool_cap ws @ map (\<lambda>w. snd (backend_Close w)) (drop writerPool_cap ws))
   \<and> enablePooling (snd (Close_each g ws)) = enablePooling g
   \<and> (enablePooling g \<and> n \<le> length (writerPool g) \<longrightarrow>
        NewWriter_each x n g s =
          (map Dialed (take n (writerPool g)), g\<lparr>writerPool := drop n (writerPool g)\<rparr>, s))
   \<and> (writerPool g = [] \<or> \<not> enablePooling g \<longrightarrow> NewWriter x g s = NewWriter_dial x g s)
   \<and> newConnections (fst (snd (NewWriter_dial x g s))) = newConnections g + 1"
proof -
  have a: "ops (backend (snd (backend_Close w))) = ops (backend w) @ [OpClose]"
    by (simp add: backend_Close_def backend_call_def)
  have b: "enablePooling g \<and> writerPool g = [] \<and> list_all (\<lambda>w. \<not> dead w) ws \<longrightarrow>
        writerPool (snd (Close_each g ws)) = take writerPool_cap ws
        \<and> map snd (fst (Close_each g ws)) =
            take writerPool_cap ws @ map (\<lambda>w. snd (backend_Close w)) (drop writerPool_cap ws)"
    using Close_each_healthy [of g ws] by simp
  have c: "writerPool g = [] \<or> \<not> enablePooling g \<longrightarrow> NewWriter x g s = NewWriter_dial x g s"
    by (auto simp: NewWriter_def)
  show ?thesis
    using a b c Close_policy [of g w] NewWriter_each_pool [of g n x s]
      NewWriter_dial_counts [of x g s] Close_each_enablePooling [of g ws]
    by (simp add: writerPool_cap_def)
qed


text \<open>
  101 healthy writers released into the empty pool: 100 are retained, the last one is
  closed, and the next 100 acquisitions return the retained writers and empty the pool.
\<close>

theorem Close_pool_policy_witness:
  "enablePooling ex_globals \<and> writerPool ex_globals = []
   \<and> list_all (\<lambda>w. \<not> dead w) (replicate 101 (ex_writer ok_backend))
   \<and> writerPool (snd (Close_each ex_globals (replicate 101 (ex_writer ok_backend))))
       = replicate 100 (ex_writer ok_backend)
   \<and> map snd (fst (Close_each ex_globals (replicate 101 (ex_writer ok_backend))))
       = replicate 100 (ex_writer ok_backend) @ [snd (backend_Close (ex_writer ok_backend))]
   \<and> ops (backend (snd (backend_Close (ex_writer ok_backend)))) = [OpClose]
   \<and> NewWriter_each ex_extern 100
        (snd (Close_each ex_globals (replicate 101 (ex_writer ok_backend)))) ex_net
       = (replicate 100 (Dialed (ex_writer ok_backend)),
          (snd (Close_each ex_globals (replicate 101 (ex_writer ok_backend))))\<lparr>writerPool := []\<rparr>,
          ex_net)"
proof -
  note t1 = Close_pool_policy [of ex_globals "ex_writer ok_backend"
      "replicate 101 (ex_writer ok_backend)" 0 ex_extern ex_net]
  have hp: "enablePooling ex_globals \<and> writerPool ex_globals = []
      \<and> list_all (\<lambda>w. \<not> dead w) (replicate 101 (ex_writer ok_backend))"
    by (simp add: ex_globals_def ex_writer_def list_all_iff)
  have tk: "take 100 (replicate 101 (ex_writer ok_backend)) = replicate 100 (ex_writer ok_backend)"
    by simp
  have dr: "drop 100 (replicate 101 (ex_writer ok_backend)) = [ex_writer ok_backend]"
    by simp
  from t1 hp have p: "writerPool (snd (Close_each ex_globals (replicate 101 (ex_writer ok_backend))))
       = replicate 100 (ex_writer ok_backend)"
    by (simp add: writerPool_cap_def)
  from t1 hp have q: "map snd (fst (Close_each ex_globals (replicate 101 (ex_writer ok_backend))))
       = replicate 100 (ex_writer ok_backend) @ [snd (backend_Close (ex_writer ok_backend))]"
    by (simp add: writerPool_cap_def)
  from t1 hp have e: "enablePooling (snd (Close_each ex_globals (replicate 101 (ex_writer ok_backend))))"
    by simp
  from t1 have o: "ops (backend (snd (backend_Close (ex_writer ok_backend)))) = [OpClose]"
    by (simp add: ex_writer_def ok_backend_def)
  note t2 = Close_pool_policy [of "snd (Close_each ex_globals (replicate 101 (ex_writer ok_backend)))"
      "ex_writer ok_backend" "[]" 100 ex_extern ex_net]
  from t2 have n0: "enablePooling (snd (Close_each ex_globals (replicate 101 (ex_writer ok_backend))))
      \<and> 100 \<le> length (writerPool (snd (Close_each ex_globals (replicate 101 (ex_writer ok_backend)))))
      \<longrightarrow> NewWriter_each ex_extern 100
        (snd (Close_each ex_globals (replicate 101 (ex_writer ok_backend)))) ex_net
       = (map Dialed (take 100 (writerPool (snd (Close_each ex_globals (replicate 101 (ex_writer ok_backend)))))),
          (snd (Close_each ex_globals (replicate 101 (ex_writer ok_backend))))
            \<lparr>writerPool := drop 100 (writerPool (snd (Close_each ex_globals (replicate 101 (ex_writer ok_backend)))))\<rparr>,
          ex_net)"
    by blast
  from n0 e p have n: "NewWriter_each ex_extern 100
        (snd (Close_each ex_globals (replicate 101 (ex_writer ok_backend)))) ex_net
       = (replicate 100 (Dialed (ex_writer ok_backend)),
          (snd (Close_each ex_globals (replicate 101 (ex_writer ok_backend))))\<lparr>writerPool := []\<rparr>,
          ex_net)"
    by simp
  show ?thesis
    using hp p q o n by blast
qed

section \<open>Dialing\<close>

lemma DialWriter_netopts:
  "fst (DialWriter_options c) =
     (if Network c \<noteq> [] then [Network c]
      else if Address c = [] \<or> strings_HasPrefix (Address c) ''/'' then [''unixgram'', ''unix'']
      else [''tls''])"
  by (simp add: DialWriter_options_def Let_def split: prod.splits)

lemma DialWriter_addropts:
  "fst (snd (DialWriter_options c)) =
     (if Address c \<noteq> [] then [Address c]
      else if Network c = [] \<or> strings_HasPrefix (Network c) ''unix''
      then [''/dev/log'', ''/var/run/syslog'', ''/var/run/log'']
      else [''localhost:514''])"
  by (simp add: DialWriter_options_def Let_def strings_HasPrefix_def split: prod.splits)

text \<open>
  The candidates of \<open>DialWriter\<close> depend on the configured network and address only.
  A configured network is the single candidate network. Otherwise, with no address or
  an address starting with \<open>/\<close>, the networks are \<open>unixgram\<close> then \<open>unix\<close>, tried
  against the address or, with no address, against \<open>/dev/log\<close>, \<open>/var/run/syslog\<close>,
  \<open>/var/run/log\<close> in that order. Otherwise the single candidate network is \<open>tls\<close>.
\<close>

lemma DialWriter_candidates:
  "(Network c \<noteq> [] \<longrightarrow> fst (DialWriter_options c) = [Network c])
   \<and> (Network c = [] \<and> (Address c = [] \<or> strings_HasPrefix (Address c) ''/'') \<longrightarrow>
        fst (DialWriter_options c) = [''unixgram'', ''unix'']
        \<and> fst (snd (DialWriter_options c)) =
            (if Address c = [] then [''/dev/log'', ''/var/run/syslog'', ''/var/run/log'']
             else [Address c]))
   \<and> (Network c = [] \<and> Address c \<noteq> [] \<and> \<not> strings_HasPrefix (Address c) ''/'' \<longrightarrow>
        fst (DialWriter_options c) = [''tls'']
        \<and> fst (snd (DialWriter_options c)) = [Address c])
   \<and> (Network c = Network c' \<and> Address c = Address c' \<longrightarrow>
        fst (DialWriter_options c) = fst (DialWriter_options c')
        \<and> fst (snd (DialWriter_options c)) = fst (snd (DialWriter_options c')))"
  by (simp add: DialWriter_netopts DialWriter_addropts)

lemma dial_attempts_first:
  "call_dial d n a s = (Inr c, s') \<Longrightarrow> dial_attempts d n a k s = (Inr c, s')"
  by (subst dial_attempts.simps) simp

text \<open>
  Claim C2. The claim says that, with no network configured and an address that is
  not a path, the single candidate is a TLS-wrapped stream and never an unencrypted
  network socket; the comment in \<open>DialWriter\<close> says the same (a TLS connection, so that
  logs are not implicitly sent over an unsecured link). For the configuration with the
  address \<open>logs.example.com:6514\<close>, no network, the SOCKS proxy \<open>127.0.0.1:1080\<close> and no
  TLS configuration, the candidate is \<open>tls\<close>, and \<open>dialWriter\<close> replaces the closure over
  \<open>tls.Dial\<close> by the closure over the SOCKS dialer: the only call on the network is the
  dial of \<open>tcp\<close> through the proxy, with no TLS handshake, and \<open>DialWriter\<close> returns a
  writer on that connection. The same configuration without the proxy dials with
  \<open>tls.Dial\<close>, and with a TLS configuration it performs the handshake over the proxied
  connection.
\<close>

theorem DialWriter_proxy_without_tls:
  "Network ex_proxy_config = [] \<and> Address ex_proxy_config = ''logs.example.com:6514''
   \<and> TLS ex_proxy_config = None \<and> SocksProxy ex_proxy_config = ''127.0.0.1:1080''
   \<and> fst (DialWriter_options ex_proxy_config) = [''tls'']
   \<and> fst (snd (DialWriter_options ex_proxy_config)) = [''logs.example.com:6514'']
   \<and> dialWriter ''tls'' ''logs.example.com:6514'' None ''127.0.0.1:1080'' ex_ok_net =
       (Inr (ok_backend\<lparr>hasFlush := True\<rparr>),
        ex_ok_net\<lparr>calls := [SocksDial ''127.0.0.1:1080'' ''tcp'' ''logs.example.com:6514'']\<rparr>)
   \<and> DialWriter ex_extern ex_proxy_config ex_ok_net =
       (case newWriter ex_extern \<lparr>backend = ok_backend\<lparr>hasFlush := True\<rparr>, template = [],
                                  timeFormat = [], tag = []\<rparr> of
          Some w \<Rightarrow> Dialed w | None \<Rightarrow> TemplatePanic,
        ex_ok_net\<lparr>calls := [SocksDial ''127.0.0.1:1080'' ''tcp'' ''logs.example.com:6514'']\<rparr>)
   \<and> newWriter ex_extern \<lparr>backend = ok_backend\<lparr>hasFlush := True\<rparr>, template = [],
                            timeFormat = [], tag = []\<rparr> \<noteq> None
   \<and> calls (snd (DialWriter ex_extern (ex_proxy_config\<lparr>SocksProxy := []\<rparr>) ex_ok_net)) =
       [TlsDial ''tcp'' ''logs.example.com:6514'']
   \<and> calls (snd (DialWriter ex_extern (ex_proxy_config\<lparr>TLS := Some (tls_Config ''ca'')\<rparr>) ex_ok_net)) =
       [SocksDial ''127.0.0.1:1080'' ''tcp'' ''logs.example.com:6514'', TlsHandshake]"
proof -
  have o: "DialWriter_options ex_proxy_config =
      ([''tls''], [''logs.example.com:6514''], ex_proxy_config)"
    by (simp add: DialWriter_options_def ex_proxy_config_def strings_HasPrefix_def Let_def)
  have o2: "DialWriter_options (ex_proxy_config\<lparr>SocksProxy := []\<rparr>) =
      ([''tls''], [''logs.example.com:6514''], ex_proxy_config\<lparr>SocksProxy := []\<rparr>)"
    by (simp add: DialWriter_options_def ex_proxy_config_def strings_HasPrefix_def Let_def)
  have o3: "DialWriter_options (ex_proxy_config\<lparr>TLS := Some (tls_Config ''ca'')\<rparr>) =
      ([''tls''], [''logs.example.com:6514''], ex_proxy_config\<lparr>TLS := Some (tls_Config ''ca'')\<rparr>)"
    by (simp add: DialWriter_options_def ex_proxy_config_def strings_HasPrefix_def Let_def)
  have d: "dialWriter ''tls'' ''logs.example.com:6514'' None ''127.0.0.1:1080'' ex_ok_net =
       (Inr (ok_backend\<lparr>hasFlush := True\<rparr>),
        ex_ok_net\<lparr>calls := [SocksDial ''127.0.0.1:1080'' ''tcp'' ''logs.example.com:6514'']\<rparr>)"
    by (simp add: dialWriter_def dialWriter_dial_def ex_ok_net_def datagram_networks_def
        dial_attempts_first [where c = ok_backend] call_dial_def net_do_def Let_def)
  have d2: "dialWriter ''tls'' ''logs.example.com:6514'' None [] ex_ok_net =
       (Inr (ok_backend\<lparr>hasFlush := True\<rparr>),
        ex_ok_net\<lparr>calls := [TlsDial ''tcp'' ''logs.example.com:6514'']\<rparr>)"
    by (simp add: dialWriter_def dialWriter_dial_def ex_ok_net_def datagram_networks_def
        dial_attempts_first [where c = ok_backend] call_dial_def net_do_def Let_def)
  have d3: "dialWriter ''tls'' ''logs.example.com:6514'' (Some (tls_Config ''ca'')) ''127.0.0.1:1080''
        ex_ok_net =
       (Inr (ok_backend\<lparr>hasFlush := True\<rparr>),
        ex_ok_net\<lparr>calls := [SocksDial ''127.0.0.1:1080'' ''tcp'' ''logs.example.com:6514'',
                                TlsHandshake]\<rparr>)"
    by (simp add: dialWriter_def dialWriter_dial_def ex_ok_net_def datagram_networks_def
        dial_attempts_first [where c = ok_backend] call_dial_def net_do_def Let_def)
  have n: "newWriter ex_extern \<lparr>backend = ok_backend\<lparr>hasFlush := True\<rparr>, template = [],
                            timeFormat = [], tag = []\<rparr> \<noteq> None"
    by (simp add: newWriter_def newWriterTemplate_def ex_extern_def ok_backend_def Let_def)
  have c: "ex_proxy_config = \<lparr>Network = [], Address = ''logs.example.com:6514'', Template = [],
      TimeFormat = [], Tag = [], TLS = None, SocksProxy = ''127.0.0.1:1080''\<rparr>"
    by (simp add: ex_proxy_config_def)
  have r1: "DialWriter ex_extern ex_proxy_config ex_ok_net =
       (case newWriter ex_extern \<lparr>backend = ok_backend\<lparr>hasFlush := True\<rparr>, template = [],
                                  timeFormat = [], tag = []\<rparr> of
          Some w \<Rightarrow> Dialed w | None \<Rightarrow> TemplatePanic,
        ex_ok_net\<lparr>calls := [SocksDial ''127.0.0.1:1080'' ''tcp'' ''logs.example.com:6514'']\<rparr>)"
    unfolding DialWriter_def o
    by (simp add: c d split: option.splits)
  have r2: "calls (snd (DialWriter ex_extern (ex_proxy_config\<lparr>SocksProxy := []\<rparr>) ex_ok_net)) =
       [TlsDial ''tcp'' ''logs.example.com:6514'']"
    unfolding DialWriter_def o2
    by (simp add: c d2 split: option.splits)
  have r3: "calls (snd (DialWriter ex_extern (ex_proxy_config\<lparr>TLS := Some (tls_Config ''ca'')\<rparr>)
        ex_ok_net)) =
       [SocksDial ''127.0.0.1:1080'' ''tcp'' ''logs.example.com:6514'', TlsHandshake]"
    unfolding DialWriter_def o3
    by (simp add: c d3 split: option.splits)
  have f: "Network ex_proxy_config = [] \<and> Address ex_proxy_config = ''logs.example.com:6514''
   \<and> TLS ex_proxy_config = None \<and> SocksProxy ex_proxy_config = ''127.0.0.1:1080''"
    by (simp add: c)
  have o': "fst (DialWriter_options ex_proxy_config) = [''tls'']
   \<and> fst (snd (DialWriter_options ex_proxy_config)) = [''logs.example.com:6514'']"
    by (simp add: o)
  show ?thesis
    using f o' d r1 n r2 r3 by simp
qed

section \<open>Connection establishment\<close>







section \<open>The journal reader and the log-call adapter\<close>

lemma getMessage_empty_group:
  "fst (GetDataValue r ''CONTAINER_TAG'') = [] \<Longrightarrow> getMessage x r = (zero_Message, False, None)"
  by (simp add: getMessage_def zero_Message_def Let_def case_prod_unfold)

lemma getMessage_err:
  assumes "snd (snd (getMessage x r)) \<noteq> None"
  shows "\<exists>g. entry_data (Journal r) ''CONTAINER_TAG'' = Some g \<and> g \<noteq> []
             \<and> entry_data (Journal r) (streamName r) = None
             \<and> entry_data (Journal r) ''CONTAINER_ID_FULL'' = None
             \<and> getMessage x r =
                 (zero_Message\<lparr>Group := g\<rparr>, False,
                  Some (Err (''missing CONTAINER_ID_FULL in message with CONTAINER_TAG='' @ g)))"
  using assms
  by (auto simp: getMessage_def GetDataValue_def zero_Message_def Let_def getMessage_rest_def
      split: option.splits if_splits)

lemma getMessage_empty_tag:
  "entry_data (Journal r) ''CONTAINER_TAG'' = None \<or> entry_data (Journal r) ''CONTAINER_TAG'' = Some []
   \<Longrightarrow> getMessage x r = (zero_Message, False, None)"
  by (rule getMessage_empty_group) (auto simp: GetDataValue_def)

lemma getMessage_missing_stream:
  assumes "entry_data (Journal r) ''CONTAINER_TAG'' = Some g" and "g \<noteq> []"
    and "entry_data (Journal r) (streamName r) = None"
    and "entry_data (Journal r) ''CONTAINER_ID_FULL'' = None"
  shows "getMessage x r =
           (zero_Message\<lparr>Group := g\<rparr>, False,
            Some (Err (''missing CONTAINER_ID_FULL in message with CONTAINER_TAG='' @ g)))"
  using assms
  by (simp add: getMessage_def GetDataValue_def zero_Message_def Let_def)

lemma getMessage_rest_fields:
  "fst (getMessage_rest x r m) = (fst (getMessage_rest x r m))
   \<and> Group (fst (getMessage_rest x r m)) = Group m
   \<and> Stream (fst (getMessage_rest x r m)) = sanitizeStreamName (Stream m)
   \<and> snd (getMessage_rest x r m) = (True, None)"
  by (simp add: getMessage_rest_def Let_def)

lemma getMessage_ok:
  assumes "fst (snd (getMessage x r))"
  shows "entry_data (Journal r) ''CONTAINER_TAG'' = Some (Group (fst (getMessage x r)))
         \<and> Group (fst (getMessage x r)) \<noteq> []
         \<and> snd (snd (getMessage x r)) = None
         \<and> (\<exists>v. (entry_data (Journal r) (streamName r) = Some v
                   \<or> (entry_data (Journal r) (streamName r) = None
                       \<and> entry_data (Journal r) ''CONTAINER_ID_FULL'' = Some v))
                \<and> Stream (fst (getMessage x r)) = sanitizeStreamName v)"
  using assms getMessage_rest_fields
  by (auto simp: getMessage_def GetDataValue_def zero_Message_def Let_def
      split: option.splits if_splits)

lemma ReadMessage_loop_skip:
  assumes "stopped r = 0" and "fst (GetDataValue (r\<lparr>Journal := j\<rparr>) ''CONTAINER_TAG'') = []"
  shows "ReadMessage_loop x r m ((NextEntry j, cl) # script) =
           ReadMessage_loop x ((if cl then reader_Close r else r)\<lparr>Journal := j\<rparr>) zero_Message script"
  using assms getMessage_empty_group [of "r\<lparr>Journal := j\<rparr>" x]
  by simp

lemma ReadMessage_loop_malformed:
  assumes "stopped r = 0" and "entry_data j ''CONTAINER_TAG'' = Some g" and "g \<noteq> []"
    and "entry_data j (streamName r) = None"
    and "entry_data j ''CONTAINER_ID_FULL'' = None"
  shows "ReadMessage_loop x r m ((NextEntry j, cl) # script) =
           Some (zero_Message\<lparr>Group := g\<rparr>,
                 Some (Err (''missing CONTAINER_ID_FULL in message with CONTAINER_TAG='' @ g)))"
  using assms getMessage_missing_stream [of "r\<lparr>Journal := j\<rparr>" g x]
  by simp

text \<open>
  Claim C8 (as the code has it). The journal reader gives a message only when the
  \<open>CONTAINER_TAG\<close> field of the record is present and not empty. A record whose
  \<open>CONTAINER_TAG\<close> is missing or empty gives no message and no error, and \<open>ReadMessage\<close>
  goes on to the next record. A record whose \<open>CONTAINER_TAG\<close> is not empty, but which
  has neither the configured stream field nor \<open>CONTAINER_ID_FULL\<close>, gives the error that
  names the tag, and \<open>ReadMessage\<close> returns that error. The two are kept apart: an
  error is given for such a record only, and never together with a message.
\<close>

theorem getMessage_spec:
  "(entry_data (Journal r) ''CONTAINER_TAG'' = None
      \<or> entry_data (Journal r) ''CONTAINER_TAG'' = Some [] \<longrightarrow>
      getMessage x r = (zero_Message, False, None))
   \<and> (entry_data (Journal r) ''CONTAINER_TAG'' = Some g \<and> g \<noteq> []
      \<and> entry_data (Journal r) (streamName r) = None
      \<and> entry_data (Journal r) ''CONTAINER_ID_FULL'' = None \<longrightarrow>
      getMessage x r =
        (zero_Message\<lparr>Group := g\<rparr>, False,
         Some (Err (''missing CONTAINER_ID_FULL in message with CONTAINER_TAG='' @ g))))
   \<and> (snd (snd (getMessage x r)) \<noteq> None \<longrightarrow>
        (\<exists>t. entry_data (Journal r) ''CONTAINER_TAG'' = Some t \<and> t \<noteq> []
             \<and> entry_data (Journal r) (streamName r) = None
             \<and> entry_data (Journal r) ''CONTAINER_ID_FULL'' = None
             \<and> getMessage x r =
                 (zero_Message\<lparr>Group := t\<rparr>, False,
                  Some (Err (''missing CONTAINER_ID_FULL in message with CONTAINER_TAG='' @ t)))))
   \<and> (fst (snd (getMessage x r)) \<longrightarrow>
        entry_data (Journal r) ''CONTAINER_TAG'' = Some (Group (fst (getMessage x r)))
        \<and> Group (fst (getMessage x r)) \<noteq> [] \<and> snd (snd (getMessage x r)) = None)
   \<and> (stopped r = 0
      \<and> (entry_data j ''CONTAINER_TAG'' = None \<or> entry_data j ''CONTAINER_TAG'' = Some []) \<longrightarrow>
        ReadMessage_loop x r m ((NextEntry j, cl) # script) =
          ReadMessage_loop x ((if cl then reader_Close r else r)\<lparr>Journal := j\<rparr>) zero_Message script)
   \<and> (stopped r = 0 \<and> entry_data j ''CONTAINER_TAG'' = Some g \<and> g \<noteq> []
      \<and> entry_data j (streamName r) = None \<and> entry_data j ''CONTAINER_ID_FULL'' = None \<longrightarrow>
        ReadMessage_loop x r m ((NextEntry j, cl) # script) =
          Some (zero_Message\<lparr>Group := g\<rparr>,
                Some (Err (''missing CONTAINER_ID_FULL in message with CONTAINER_TAG='' @ g))))"
proof -
  have s: "stopped r = 0
      \<and> (entry_data j ''CONTAINER_TAG'' = None \<or> entry_data j ''CONTAINER_TAG'' = Some []) \<longrightarrow>
        ReadMessage_loop x r m ((NextEntry j, cl) # script) =
          ReadMessage_loop x ((if cl then reader_Close r else r)\<lparr>Journal := j\<rparr>) zero_Message script"
  proof (intro impI)
    assume a: "stopped r = 0
      \<and> (entry_data j ''CONTAINER_TAG'' = None \<or> entry_data j ''CONTAINER_TAG'' = Some [])"
    then have "fst (GetDataValue (r\<lparr>Journal := j\<rparr>) ''CONTAINER_TAG'') = []"
      by (auto simp: GetDataValue_def)
    with a show "ReadMessage_loop x r m ((NextEntry j, cl) # script) =
          ReadMessage_loop x ((if cl then reader_Close r else r)\<lparr>Journal := j\<rparr>) zero_Message script"
      by (intro ReadMessage_loop_skip) simp
  qed
  have e: "snd (snd (getMessage x r)) \<noteq> None \<longrightarrow>
        (\<exists>t. entry_data (Journal r) ''CONTAINER_TAG'' = Some t \<and> t \<noteq> []
             \<and> entry_data (Journal r) (streamName r) = None
             \<and> entry_data (Journal r) ''CONTAINER_ID_FULL'' = None
             \<and> getMessage x r =
                 (zero_Message\<lparr>Group := t\<rparr>, False,
                  Some (Err (''missing CONTAINER_ID_FULL in message with CONTAINER_TAG='' @ t))))"
    using getMessage_err [of x r] by blast
  have n: "entry_data (Journal r) ''CONTAINER_TAG'' = None
      \<or> entry_data (Journal r) ''CONTAINER_TAG'' = Some [] \<longrightarrow>
      getMessage x r = (zero_Message, False, None)"
    using getMessage_empty_tag [of r x] by blast
  have k: "fst (snd (getMessage x r)) \<longrightarrow>
        entry_data (Journal r) ''CONTAINER_TAG'' = Some (Group (fst (getMessage x r)))
        \<and> Group (fst (getMessage x r)) \<noteq> [] \<and> snd (snd (getMessage x r)) = None"
    using getMessage_ok [of x r] by blast
  have ms: "entry_data (Journal r) ''CONTAINER_TAG'' = Some g \<and> g \<noteq> []
      \<and> entry_data (Journal r) (streamName r) = None
      \<and> entry_data (Journal r) ''CONTAINER_ID_FULL'' = None \<longrightarrow>
      getMessage x r =
        (zero_Message\<lparr>Group := g\<rparr>, False,
         Some (Err (''missing CONTAINER_ID_FULL in message with CONTAINER_TAG='' @ g)))"
    using getMessage_missing_stream [of r g x] by blast
  have ml: "stopped r = 0 \<and> entry_data j ''CONTAINER_TAG'' = Some g \<and> g \<noteq> []
      \<and> entry_data j (streamName r) = None \<and> entry_data j ''CONTAINER_ID_FULL'' = None \<longrightarrow>
        ReadMessage_loop x r m ((NextEntry j, cl) # script) =
          Some (zero_Message\<lparr>Group := g\<rparr>,
                Some (Err (''missing CONTAINER_ID_FULL in message with CONTAINER_TAG='' @ g)))"
    using ReadMessage_loop_malformed [of r j g x m cl script] by blast
  show ?thesis
    by (intro conjI n ms e k s ml)
qed

text \<open>
  Four records: one with no field at all, one with an empty tag, one with the tag
  \<open>web\<close> and no stream field, and one with the tag \<open>web\<close> and the container id \<open>a:b*c\<close>;
  and \<open>ReadMessage\<close> over the record with the empty tag followed by the one with the
  tag \<open>web\<close> and no stream field.
\<close>

theorem getMessage_spec_witness:
  "entry_data (Journal (ex_reader Map.empty)) ''CONTAINER_TAG'' = None
   \<and> getMessage ex_jextern (ex_reader Map.empty) = (zero_Message, False, None)
   \<and> entry_data (Journal (ex_reader [''CONTAINER_TAG'' \<mapsto> []])) ''CONTAINER_TAG'' = Some []
   \<and> getMessage ex_jextern (ex_reader [''CONTAINER_TAG'' \<mapsto> []]) = (zero_Message, False, None)
   \<and> entry_data (Journal (ex_reader [''CONTAINER_TAG'' \<mapsto> ''web''])) ''CONTAINER_TAG'' = Some ''web''
   \<and> entry_data (Journal (ex_reader [''CONTAINER_TAG'' \<mapsto> ''web'']))
        (streamName (ex_reader [''CONTAINER_TAG'' \<mapsto> ''web''])) = None
   \<and> entry_data (Journal (ex_reader [''CONTAINER_TAG'' \<mapsto> ''web''])) ''CONTAINER_ID_FULL'' = None
   \<and> getMessage ex_jextern (ex_reader [''CONTAINER_TAG'' \<mapsto> ''web'']) =
       (zero_Message\<lparr>Group := ''web''\<rparr>, False,
        Some (Err ''missing CONTAINER_ID_FULL in message with CONTAINER_TAG=web''))
   \<and> snd (snd (getMessage ex_jextern (ex_reader [''CONTAINER_TAG'' \<mapsto> ''web'']))) \<noteq> None
   \<and> fst (snd (getMessage ex_jextern
        (ex_reader [''CONTAINER_TAG'' \<mapsto> ''web'', ''CONTAINER_ID_FULL'' \<mapsto> ''a:b*c''])))
   \<and> Group (fst (getMessage ex_jextern
        (ex_reader [''CONTAINER_TAG'' \<mapsto> ''web'', ''CONTAINER_ID_FULL'' \<mapsto> ''a:b*c'']))) = ''web''
   \<and> snd (snd (getMessage ex_jextern
        (ex_reader [''CONTAINER_TAG'' \<mapsto> ''web'', ''CONTAINER_ID_FULL'' \<mapsto> ''a:b*c'']))) = None
   \<and> stopped (ex_reader Map.empty) = 0
   \<and> ReadMessage_loop ex_jextern (ex_reader Map.empty) zero_Message
        [(NextEntry (Journal (ex_reader [''CONTAINER_TAG'' \<mapsto> []])), False),
         (NextEntry (Journal (ex_reader [''CONTAINER_TAG'' \<mapsto> ''web''])), False)]
       = Some (zero_Message\<lparr>Group := ''web''\<rparr>,
               Some (Err ''missing CONTAINER_ID_FULL in message with CONTAINER_TAG=web''))"
proof -
  have a: "entry_data (Journal (ex_reader Map.empty)) ''CONTAINER_TAG'' = None"
    by (simp add: ex_reader_def)
  have a2: "entry_data (Journal (ex_reader [''CONTAINER_TAG'' \<mapsto> []])) ''CONTAINER_TAG'' = Some []"
    by (simp add: ex_reader_def)
  have b: "entry_data (Journal (ex_reader [''CONTAINER_TAG'' \<mapsto> ''web''])) ''CONTAINER_TAG'' = Some ''web''
      \<and> ''web'' \<noteq> []
      \<and> entry_data (Journal (ex_reader [''CONTAINER_TAG'' \<mapsto> ''web'']))
        (streamName (ex_reader [''CONTAINER_TAG'' \<mapsto> ''web''])) = None
      \<and> entry_data (Journal (ex_reader [''CONTAINER_TAG'' \<mapsto> ''web''])) ''CONTAINER_ID_FULL'' = None"
    by (simp add: ex_reader_def)
  have c: "fst (snd (getMessage ex_jextern
        (ex_reader [''CONTAINER_TAG'' \<mapsto> ''web'', ''CONTAINER_ID_FULL'' \<mapsto> ''a:b*c''])))"
    by (simp add: getMessage_def GetDataValue_def ex_reader_def zero_Message_def
        getMessage_rest_def Let_def)
  have st: "stopped (ex_reader Map.empty) = 0"
    by (simp add: ex_reader_def)
  have sn: "streamName (ex_reader Map.empty) = streamName (ex_reader [''CONTAINER_TAG'' \<mapsto> ''web''])"
    by (simp add: ex_reader_def)
  have j1: "(ex_reader Map.empty)\<lparr>Journal := Journal (ex_reader [''CONTAINER_TAG'' \<mapsto> []])\<rparr>
      = ex_reader [''CONTAINER_TAG'' \<mapsto> []]"
    by (simp add: ex_reader_def)
  have st2: "stopped (ex_reader [''CONTAINER_TAG'' \<mapsto> []]) = 0"
    by (simp add: ex_reader_def)
  have sn2: "streamName (ex_reader [''CONTAINER_TAG'' \<mapsto> []])
      = streamName (ex_reader [''CONTAINER_TAG'' \<mapsto> ''web''])"
    by (simp add: ex_reader_def)
  note t1 = getMessage_spec [of "ex_reader Map.empty" ex_jextern, THEN conjunct1]
  note t1' = getMessage_spec [of "ex_reader [''CONTAINER_TAG'' \<mapsto> []]" ex_jextern, THEN conjunct1]
  note t2 = getMessage_spec [of "ex_reader [''CONTAINER_TAG'' \<mapsto> ''web'']" ex_jextern "''web''",
      THEN conjunct2, THEN conjunct1]
  note t3 = getMessage_spec [of "ex_reader [''CONTAINER_TAG'' \<mapsto> ''web'']" ex_jextern,
      THEN conjunct2, THEN conjunct2, THEN conjunct1]
  note t4 = getMessage_spec [of "ex_reader [''CONTAINER_TAG'' \<mapsto> ''web'', ''CONTAINER_ID_FULL'' \<mapsto> ''a:b*c'']"
      ex_jextern, THEN conjunct2, THEN conjunct2, THEN conjunct2, THEN conjunct1]
  note t5 = getMessage_spec [of "ex_reader Map.empty" ex_jextern _
      "Journal (ex_reader [''CONTAINER_TAG'' \<mapsto> []])" zero_Message False
      "[(NextEntry (Journal (ex_reader [''CONTAINER_TAG'' \<mapsto> ''web''])), False)]",
      THEN conjunct2, THEN conjunct2, THEN conjunct2, THEN conjunct2, THEN conjunct1]
  note t6 = getMessage_spec [of "ex_reader [''CONTAINER_TAG'' \<mapsto> []]" ex_jextern "''web''"
      "Journal (ex_reader [''CONTAINER_TAG'' \<mapsto> ''web''])" zero_Message False "[]",
      THEN conjunct2, THEN conjunct2, THEN conjunct2, THEN conjunct2, THEN conjunct2]
  from t1 a have r1: "getMessage ex_jextern (ex_reader Map.empty) = (zero_Message, False, None)"
    by blast
  from t1' a2 have r1': "getMessage ex_jextern (ex_reader [''CONTAINER_TAG'' \<mapsto> []])
      = (zero_Message, False, None)"
    by blast
  from t2 b have r2: "getMessage ex_jextern (ex_reader [''CONTAINER_TAG'' \<mapsto> ''web'']) =
       (zero_Message\<lparr>Group := ''web''\<rparr>, False,
        Some (Err (''missing CONTAINER_ID_FULL in message with CONTAINER_TAG='' @ ''web'')))"
    by blast
  then have e: "snd (snd (getMessage ex_jextern (ex_reader [''CONTAINER_TAG'' \<mapsto> ''web'']))) \<noteq> None"
    by simp
  from t3 e have r3: "\<exists>t. entry_data (Journal (ex_reader [''CONTAINER_TAG'' \<mapsto> ''web''])) ''CONTAINER_TAG'' = Some t
      \<and> t \<noteq> []
      \<and> entry_data (Journal (ex_reader [''CONTAINER_TAG'' \<mapsto> ''web'']))
          (streamName (ex_reader [''CONTAINER_TAG'' \<mapsto> ''web''])) = None
      \<and> entry_data (Journal (ex_reader [''CONTAINER_TAG'' \<mapsto> ''web''])) ''CONTAINER_ID_FULL'' = None
      \<and> getMessage ex_jextern (ex_reader [''CONTAINER_TAG'' \<mapsto> ''web'']) =
          (zero_Message\<lparr>Group := t\<rparr>, False,
           Some (Err (''missing CONTAINER_ID_FULL in message with CONTAINER_TAG='' @ t)))"
    by blast
  from t4 c have r4: "entry_data (Journal (ex_reader [''CONTAINER_TAG'' \<mapsto> ''web'', ''CONTAINER_ID_FULL'' \<mapsto> ''a:b*c'']))
      ''CONTAINER_TAG'' = Some (Group (fst (getMessage ex_jextern
        (ex_reader [''CONTAINER_TAG'' \<mapsto> ''web'', ''CONTAINER_ID_FULL'' \<mapsto> ''a:b*c'']))))
      \<and> snd (snd (getMessage ex_jextern
        (ex_reader [''CONTAINER_TAG'' \<mapsto> ''web'', ''CONTAINER_ID_FULL'' \<mapsto> ''a:b*c'']))) = None"
    by blast
  then have r4g: "Group (fst (getMessage ex_jextern
        (ex_reader [''CONTAINER_TAG'' \<mapsto> ''web'', ''CONTAINER_ID_FULL'' \<mapsto> ''a:b*c'']))) = ''web''"
    by (simp add: ex_reader_def)
  from t5 st a2 have r5: "ReadMessage_loop ex_jextern (ex_reader Map.empty) zero_Message
        [(NextEntry (Journal (ex_reader [''CONTAINER_TAG'' \<mapsto> []])), False),
         (NextEntry (Journal (ex_reader [''CONTAINER_TAG'' \<mapsto> ''web''])), False)]
       = ReadMessage_loop ex_jextern
          ((if False then reader_Close (ex_reader Map.empty) else ex_reader Map.empty)
             \<lparr>Journal := Journal (ex_reader [''CONTAINER_TAG'' \<mapsto> []])\<rparr>) zero_Message
          [(NextEntry (Journal (ex_reader [''CONTAINER_TAG'' \<mapsto> ''web''])), False)]"
    by blast
  from t6 st2 b sn2 have r6: "ReadMessage_loop ex_jextern (ex_reader [''CONTAINER_TAG'' \<mapsto> []]) zero_Message
        [(NextEntry (Journal (ex_reader [''CONTAINER_TAG'' \<mapsto> ''web''])), False)]
       = Some (zero_Message\<lparr>Group := ''web''\<rparr>,
               Some (Err (''missing CONTAINER_ID_FULL in message with CONTAINER_TAG='' @ ''web'')))"
    by simp
  have r7: "ReadMessage_loop ex_jextern (ex_reader Map.empty) zero_Message
        [(NextEntry (Journal (ex_reader [''CONTAINER_TAG'' \<mapsto> []])), False),
         (NextEntry (Journal (ex_reader [''CONTAINER_TAG'' \<mapsto> ''web''])), False)]
       = Some (zero_Message\<lparr>Group := ''web''\<rparr>,
               Some (Err ''missing CONTAINER_ID_FULL in message with CONTAINER_TAG=web''))"
    unfolding r5 if_False j1 r6 by simp
  have r2': "getMessage ex_jextern (ex_reader [''CONTAINER_TAG'' \<mapsto> ''web'']) =
       (zero_Message\<lparr>Group := ''web''\<rparr>, False,
        Some (Err ''missing CONTAINER_ID_FULL in message with CONTAINER_TAG=web''))"
    unfolding r2 by simp
  show ?thesis
    using r3 by (intro conjI a r1 a2 r1' b [THEN conjunct1] b [THEN conjunct2, THEN conjunct2, THEN conjunct1]
        b [THEN conjunct2, THEN conjunct2, THEN conjunct2] r2' e c r4g r4 [THEN conjunct2] st r7)
qed

text \<open>
  The claim as written gives the error to every record whose tag is present and whose
  stream fields are missing. The test of the source is on the length of the tag: a
  record whose \<open>CONTAINER_TAG\<close> is present and empty, with both stream fields missing,
  gives no message and no error.
\<close>

theorem empty_tag_no_error:
  "entry_data (Journal (ex_reader [''CONTAINER_TAG'' \<mapsto> []])) ''CONTAINER_TAG'' = Some []
   \<and> entry_data (Journal (ex_reader [''CONTAINER_TAG'' \<mapsto> []]))
        (streamName (ex_reader [''CONTAINER_TAG'' \<mapsto> []])) = None
   \<and> entry_data (Journal (ex_reader [''CONTAINER_TAG'' \<mapsto> []])) ''CONTAINER_ID_FULL'' = None
   \<and> getMessage ex_jextern (ex_reader [''CONTAINER_TAG'' \<mapsto> []]) = (zero_Message, False, None)"
  by (simp add: getMessage_def GetDataValue_def ex_reader_def zero_Message_def Let_def)


lemma HandleLog_pushes:
  "\<exists>msg. HandleLog mk caller push notify h q entry = (None, notify (push q msg))
         \<and> Group msg = LogHandler.Group h \<and> Stream msg = LogHandler.Stream h"
  unfolding HandleLog_def Let_def
  apply (rule exI, rule conjI, rule refl)
  apply (simp split: option.splits)
  done

text \<open>
  Claim C9 (as the code has it). A message that the journal reader hands on has a group
  that is not empty and a stream that is the sanitized value of the configured stream
  field, or of \<open>CONTAINER_ID_FULL\<close> when that field is missing; a record whose group would
  be empty gives no message, and \<open>ReadMessage\<close> skips it. The log-call adapter makes no
  such test: \<open>HandleLog\<close> pushes one message, with the group and the stream of the
  handler whatever they are, notifies the queue and returns no error.
\<close>

theorem enqueue_spec:
  "(fst (snd (getMessage x r)) \<longrightarrow>
      Group (fst (getMessage x r)) \<noteq> []
      \<and> (\<exists>v. (entry_data (Journal r) (streamName r) = Some v
                \<or> (entry_data (Journal r) (streamName r) = None
                    \<and> entry_data (Journal r) ''CONTAINER_ID_FULL'' = Some v))
             \<and> Stream (fst (getMessage x r)) = sanitizeStreamName v))
   \<and> (fst (GetDataValue r ''CONTAINER_TAG'') = [] \<longrightarrow>
        getMessage x r = (zero_Message, False, None))
   \<and> (stopped r = 0 \<and> fst (GetDataValue (r\<lparr>Journal := j\<rparr>) ''CONTAINER_TAG'') = [] \<longrightarrow>
        ReadMessage_loop x r m ((NextEntry j, cl) # script) =
          ReadMessage_loop x ((if cl then reader_Close r else r)\<lparr>Journal := j\<rparr>) zero_Message script)
   \<and> (\<exists>msg. HandleLog mk caller push notify h q entry = (None, notify (push q msg))
         \<and> Group msg = LogHandler.Group h \<and> Stream msg = LogHandler.Stream h)"
  using getMessage_ok [of x r] getMessage_empty_group [of r x]
    ReadMessage_loop_skip [of r j x m cl script]
    HandleLog_pushes [of mk caller push notify h q entry]
  by blast

text \<open>
  A record with the tag \<open>web\<close> and the container id \<open>a:b*c\<close> is handed on with the stream
  \<open>a/b/c\<close>; a record with no field is skipped.
\<close>

theorem enqueue_spec_witness:
  "fst (snd (getMessage ex_jextern
        (ex_reader [''CONTAINER_TAG'' \<mapsto> ''web'', ''CONTAINER_ID_FULL'' \<mapsto> ''a:b*c''])))
   \<and> Group (fst (getMessage ex_jextern
        (ex_reader [''CONTAINER_TAG'' \<mapsto> ''web'', ''CONTAINER_ID_FULL'' \<mapsto> ''a:b*c'']))) \<noteq> []
   \<and> Stream (fst (getMessage ex_jextern
        (ex_reader [''CONTAINER_TAG'' \<mapsto> ''web'', ''CONTAINER_ID_FULL'' \<mapsto> ''a:b*c'']))) = ''a/b/c''
   \<and> fst (GetDataValue (ex_reader Map.empty) ''CONTAINER_TAG'') = []
   \<and> getMessage ex_jextern (ex_reader Map.empty) = (zero_Message, False, None)
   \<and> ReadMessage_loop ex_jextern (ex_reader Map.empty) zero_Message
        [(NextEntry (Journal (ex_reader Map.empty)), False)]
       = ReadMessage_loop ex_jextern (ex_reader Map.empty) zero_Message []"
proof -
  have c: "fst (snd (getMessage ex_jextern
        (ex_reader [''CONTAINER_TAG'' \<mapsto> ''web'', ''CONTAINER_ID_FULL'' \<mapsto> ''a:b*c''])))"
    by (simp add: getMessage_def GetDataValue_def ex_reader_def zero_Message_def
        getMessage_rest_def Let_def)
  have e: "fst (GetDataValue (ex_reader Map.empty) ''CONTAINER_TAG'') = []"
    by (simp add: GetDataValue_def ex_reader_def)
  have st: "stopped (ex_reader Map.empty) = 0
      \<and> fst (GetDataValue ((ex_reader Map.empty)\<lparr>Journal := Journal (ex_reader Map.empty)\<rparr>)
               ''CONTAINER_TAG'') = []"
    by (simp add: GetDataValue_def ex_reader_def)
  have sv: "sanitizeStreamName ''a:b*c'' = ''a/b/c''"
    by (simp add: sanitizeStreamName_def strings_Replace_def)
  note t1 = enqueue_spec [of ex_jextern
      "ex_reader [''CONTAINER_TAG'' \<mapsto> ''web'', ''CONTAINER_ID_FULL'' \<mapsto> ''a:b*c'']",
      THEN conjunct1, rule_format, OF c]
  from t1 have g: "Group (fst (getMessage ex_jextern
        (ex_reader [''CONTAINER_TAG'' \<mapsto> ''web'', ''CONTAINER_ID_FULL'' \<mapsto> ''a:b*c'']))) \<noteq> []"
    by (rule conjunct1)
  from t1 [THEN conjunct2] sv have s: "Stream (fst (getMessage ex_jextern
        (ex_reader [''CONTAINER_TAG'' \<mapsto> ''web'', ''CONTAINER_ID_FULL'' \<mapsto> ''a:b*c'']))) = ''a/b/c''"
    by (auto simp: ex_reader_def)
  note t2 = enqueue_spec [of ex_jextern "ex_reader Map.empty", THEN conjunct2, THEN conjunct1,
      rule_format, OF e]
  note t3 = enqueue_spec [of ex_jextern "ex_reader Map.empty" "Journal (ex_reader Map.empty)"
      zero_Message False "[]", THEN conjunct2, THEN conjunct2, THEN conjunct1, rule_format, OF st]
  have eq: "(ex_reader Map.empty)\<lparr>Journal := Journal (ex_reader Map.empty)\<rparr> = ex_reader Map.empty"
    by simp
  from t3 have rl: "ReadMessage_loop ex_jextern (ex_reader Map.empty) zero_Message
        [(NextEntry (Journal (ex_reader Map.empty)), False)]
       = ReadMessage_loop ex_jextern (ex_reader Map.empty) zero_Message []"
    by (simp only: eq if_False)
  show ?thesis
    by (intro conjI c g s e t2 rl)
qed

text \<open>
  The claim as written says that a message is enqueued only when its group and its
  stream are both identified. A handler whose group and stream are empty enqueues its
  message all the same: after one call the queue holds one message, with an empty
  group and an empty stream.
\<close>

theorem HandleLog_enqueues_empty:
  "LogHandler.Group ex_handler = [] \<and> LogHandler.Stream ex_handler = []
   \<and> fst (HandleLog ex_MakeEvent None Push Notify ex_handler ex_queue ()) = None
   \<and> length (batch (snd (HandleLog ex_MakeEvent None Push Notify ex_handler ex_queue ()))) = 1
   \<and> Group (hd (batch (snd (HandleLog ex_MakeEvent None Push Notify ex_handler ex_queue ())))) = []
   \<and> Stream (hd (batch (snd (HandleLog ex_MakeEvent None Push Notify ex_handler ex_queue ())))) = []"
  by (simp add: HandleLog_def Push_def Notify_def ex_handler_def ex_queue_def ex_MakeEvent_def
      zero_Message_def Let_def)

end
